theory Spec2Isabelle
  imports Complex_Main "HOL-Library.Sublist"
begin

section \<open>Data model (api/openai.go, api/config.go)\<close>

text \<open>
  Go's \<open>int\<close> is modelled as \<open>int\<close>: the handler only copies these values, compares
  them with zero and counts a loop index from zero up to the sample count, so no
  arithmetic can overflow. Go's \<open>float64\<close> is modelled as \<open>real\<close>: the handler only
  copies these values and compares them with zero. Strings are byte lists.
\<close>

type_synonym float64 = real

record Message =
  Role :: string
  Content :: string

record OpenAIRequest =
  Model :: string
  Prompt :: string
  Stop :: string
  Messages :: "Message list"
  Echo :: bool
  TopP :: float64
  TopK :: int
  Temperature :: float64
  Maxtokens :: int
  N :: int
  Batch :: int
  F16 :: bool
  IgnoreEOS :: bool
  RepeatPenalty :: float64
  Keep :: int
  Seed :: int

record TemplateConfig =
  Completion :: string
  Chat :: string

text \<open>
  \<open>Config\<close> embeds \<open>OpenAIRequest\<close> (field \<open>Request\<close> here) and declares a field
  \<open>F16\<close> of its own (\<open>Config_F16\<close> here). In Go the selector \<open>config.F16\<close> names the
  shallower field, the one declared by \<open>Config\<close>; \<open>config.Echo\<close>, \<open>config.TopK\<close>, ...
  name the promoted fields of the embedded request.
\<close>

record Config =
  Request :: OpenAIRequest
  Name :: string
  Path :: string
  StopWords :: "string list"
  Cutstrings :: "string list"
  TrimSpace :: "string list"
  ContextSize :: int
  Config_F16 :: bool
  Threads :: int
  Debug :: bool
  Roles :: "string \<rightharpoonup> string"
  TemplateConfig :: TemplateConfig

text \<open>\<open>ConfigFile.Configs\<close> is a slice of pointers: an entry may be \<open>nil\<close> (\<open>None\<close>).\<close>

record ConfigFile =
  Configs :: "Config option list"

type_synonym ConfigMerger = "string \<rightharpoonup> Config"

record Choice =
  Index :: int
  FinishReason :: string
  Choice_Message :: "Message option"
  Text :: string

record OpenAIResponse =
  Created :: int
  Object :: string
  ID :: string
  Response_Model :: string
  Choices :: "Choice list"

text \<open>
  Errors are values. \<open>External\<close> stands for an error produced outside this package
  (the operating system, the YAML decoder, the model loader, the inference engine,
  the body parser); the other constructors are the errors this package builds, and
  \<open>Panic\<close> is a run-time panic of the handler.
\<close>

datatype error =
    External string
  | CannotReadConfigFile error
  | CannotUnmarshalConfigFile error
  | NoModelSpecified
  | FailedLoadingModelConfig error
  | Panic string

section \<open>Request defaults and the override merge (api/openai.go)\<close>

definition zero_OpenAIRequest :: OpenAIRequest where
  "zero_OpenAIRequest =
     \<lparr>Model = [], Prompt = [], Stop = [], Messages = [], Echo = False, TopP = 0, TopK = 0,
      Temperature = 0, Maxtokens = 0, N = 0, Batch = 0, F16 = False, IgnoreEOS = False,
      RepeatPenalty = 0, Keep = 0, Seed = 0\<rparr>"

definition zero_Config :: Config where
  "zero_Config =
     \<lparr>Request = zero_OpenAIRequest, Name = [], Path = [], StopWords = [], Cutstrings = [],
      TrimSpace = [], ContextSize = 0, Config_F16 = False, Threads = 0, Debug = False,
      Roles = Map.empty, TemplateConfig = \<lparr>Completion = [], Chat = []\<rparr>\<rparr>"

definition defaultRequest :: "string \<Rightarrow> OpenAIRequest" where
  "defaultRequest modelFile =
     zero_OpenAIRequest\<lparr>TopP := 7 / 10, TopK := 80, Maxtokens := 512,
       Temperature := 9 / 10, Model := modelFile\<rparr>"

definition updateConfig :: "Config \<Rightarrow> OpenAIRequest \<Rightarrow> Config" where
  "updateConfig config input =
    (let c1 = (if Echo input then config\<lparr>Request := (Request config)\<lparr>Echo := Echo input\<rparr>\<rparr>
               else config);
         c2 = (if TopK input \<noteq> 0 then c1\<lparr>Request := (Request c1)\<lparr>TopK := TopK input\<rparr>\<rparr>
               else c1);
         c3 = (if TopP input \<noteq> 0 then c2\<lparr>Request := (Request c2)\<lparr>TopP := TopP input\<rparr>\<rparr>
               else c2);
         c4 = (if Temperature input \<noteq> 0
               then c3\<lparr>Request := (Request c3)\<lparr>Temperature := Temperature input\<rparr>\<rparr>
               else c3);
         c5 = (if Maxtokens input \<noteq> 0
               then c4\<lparr>Request := (Request c4)\<lparr>Maxtokens := Maxtokens input\<rparr>\<rparr>
               else c4);
         c6 = (if Stop input \<noteq> [] then c5\<lparr>StopWords := StopWords c5 @ [Stop input]\<rparr>
               else c5);
         c7 = (if RepeatPenalty input \<noteq> 0
               then c6\<lparr>Request := (Request c6)\<lparr>RepeatPenalty := RepeatPenalty input\<rparr>\<rparr>
               else c6);
         c8 = (if Keep input \<noteq> 0 then c7\<lparr>Request := (Request c7)\<lparr>Keep := Keep input\<rparr>\<rparr>
               else c7);
         c9 = (if Batch input \<noteq> 0 then c8\<lparr>Request := (Request c8)\<lparr>Batch := Batch input\<rparr>\<rparr>
               else c8);
         c10 = (if F16 input then c9\<lparr>Config_F16 := F16 input\<rparr> else c9);
         c11 = (if IgnoreEOS input
                then c10\<lparr>Request := (Request c10)\<lparr>IgnoreEOS := IgnoreEOS input\<rparr>\<rparr>
                else c10);
         c12 = (if Seed input \<noteq> 0 then c11\<lparr>Request := (Request c11)\<lparr>Seed := Seed input\<rparr>\<rparr>
                else c11)
     in c12)"

text \<open>
  Lines 188-196 of the handler: the entry found under the model identifier is copied
  into a local (\<open>ConfigMerger\<close> maps names to \<open>Config\<close> values, not pointers);
  otherwise a \<open>Config\<close> holding only \<open>defaultRequest modelFile\<close> is built.
\<close>

definition starting_config :: "ConfigMerger \<Rightarrow> string \<Rightarrow> Config" where
  "starting_config cm modelFile =
     (case cm modelFile of
        None \<Rightarrow> zero_Config\<lparr>Request := defaultRequest modelFile\<rparr>
      | Some cfg \<Rightarrow> cfg)"

text \<open>Lines 201-209: the values the server was started with, applied last.\<close>

definition server_forced :: "int \<Rightarrow> int \<Rightarrow> bool \<Rightarrow> Config \<Rightarrow> Config" where
  "server_forced threads ctx f16 config =
    (let c1 = (if threads \<noteq> 0 then config\<lparr>Threads := threads\<rparr> else config);
         c2 = (if ctx \<noteq> 0 then c1\<lparr>ContextSize := ctx\<rparr> else c1);
         c3 = (if f16 then c2\<lparr>Config_F16 := True\<rparr> else c2)
     in c3)"

text \<open>Lines 188-209 together: the configuration the rest of the handler works with.\<close>

definition resolved_config ::
  "ConfigMerger \<Rightarrow> string \<Rightarrow> OpenAIRequest \<Rightarrow> int \<Rightarrow> int \<Rightarrow> bool \<Rightarrow> Config" where
  "resolved_config cm modelFile input threads ctx f16 =
     server_forced threads ctx f16 (updateConfig (starting_config cm modelFile) input)"

section \<open>Collaborators outside these files\<close>

text \<open>
  The operating system, the YAML decoder and the regular-expression compiler are
  parameters of the model. \<open>os_Stat\<close> says whether \<open>os.Stat\<close> returns no error;
  \<open>ioutil_ReadDir\<close> gives the names of the directory's entries in the order listed;
  \<open>yaml_Unmarshal_Config\<close> and \<open>yaml_Unmarshal_ConfigFile\<close> decode the bytes of a file
  into a fresh \<open>Config\<close> or \<open>ConfigFile\<close>; \<open>regexp_MustCompile\<close> gives, for a pattern
  that compiles, the function \<open>\<lambda>s. reg.ReplaceAllString(s, "")\<close> of the compiled
  expression, and \<open>None\<close> for a pattern on which \<open>regexp.MustCompile\<close> panics.
\<close>

record world =
  os_ReadFile :: "string \<Rightarrow> error + string"
  os_Stat :: "string \<Rightarrow> bool"
  ioutil_ReadDir :: "string \<Rightarrow> error + string list"
  filepath_Join :: "string \<Rightarrow> string \<Rightarrow> string"
  yaml_Unmarshal_Config :: "string \<Rightarrow> error + Config"
  yaml_Unmarshal_ConfigFile :: "string \<Rightarrow> error + ConfigFile"
  regexp_MustCompile :: "string \<Rightarrow> (string \<Rightarrow> string) option"

text \<open>
  The model loader (package \<open>pkg/model\<close>). \<open>ListModels\<close> returns a listing and an
  error; \<open>TemplatePrefix\<close> takes the template name and the input text.
\<close>

record ModelLoader =
  ModelPath :: string
  ExistsInModelPath :: "string \<Rightarrow> bool"
  ListModels :: "string list \<times> error option"
  TemplatePrefix :: "string \<Rightarrow> string \<Rightarrow> error + string"

text \<open>
  \<open>ModelInference\<close> (same package, another file) returns an error or the callable
  \<open>predFunc\<close>. The callable takes no argument and the handler calls it sequentially,
  so it is given by the outcome of each invocation: \<open>predFunc k\<close> is what the
  invocation returns after \<open>k\<close> earlier invocations.
\<close>

type_synonym predFunc = "nat \<Rightarrow> error + string"

type_synonym ModelInference = "string \<Rightarrow> ModelLoader \<Rightarrow> Config \<Rightarrow> error + predFunc"

section \<open>Functions of package strings\<close>

fun strings_Contains :: "string \<Rightarrow> string \<Rightarrow> bool" where
  "strings_Contains [] substr = (substr = [])"
| "strings_Contains (x # xs) substr = (prefix substr (x # xs) \<or> strings_Contains xs substr)"

text \<open>\<open>strings.TrimLeft\<close> for a cutset of ASCII characters.\<close>

definition strings_TrimLeft :: "string \<Rightarrow> string \<Rightarrow> string" where
  "strings_TrimLeft s cutset = dropWhile (\<lambda>c. c \<in> set cutset) s"

definition strings_TrimPrefix :: "string \<Rightarrow> string \<Rightarrow> string" where
  "strings_TrimPrefix s p = (if prefix p s then drop (length p) s else s)"

fun strings_Join :: "string list \<Rightarrow> string \<Rightarrow> string" where
  "strings_Join [] sep = []"
| "strings_Join [x] sep = x"
| "strings_Join (x # y # ys) sep = x @ sep @ strings_Join (y # ys) sep"

text \<open>
  The UTF-8 encodings of the code points for which \<open>unicode.IsSpace\<close> holds:
  U+0009 to U+000D, U+0020, U+0085, U+00A0, U+1680, U+2000 to U+200A, U+2028, U+2029,
  U+202F, U+205F and U+3000.
\<close>

definition space_runes :: "string list" where
  "space_runes =
     [[CHR 0x09], [CHR 0x0A], [CHR 0x0B], [CHR 0x0C], [CHR 0x0D], [CHR 0x20],
      [CHR 0xC2, CHR 0x85], [CHR 0xC2, CHR 0xA0], [CHR 0xE1, CHR 0x9A, CHR 0x80],
      [CHR 0xE2, CHR 0x80, CHR 0x80], [CHR 0xE2, CHR 0x80, CHR 0x81],
      [CHR 0xE2, CHR 0x80, CHR 0x82], [CHR 0xE2, CHR 0x80, CHR 0x83],
      [CHR 0xE2, CHR 0x80, CHR 0x84], [CHR 0xE2, CHR 0x80, CHR 0x85],
      [CHR 0xE2, CHR 0x80, CHR 0x86], [CHR 0xE2, CHR 0x80, CHR 0x87],
      [CHR 0xE2, CHR 0x80, CHR 0x88], [CHR 0xE2, CHR 0x80, CHR 0x89],
      [CHR 0xE2, CHR 0x80, CHR 0x8A], [CHR 0xE2, CHR 0x80, CHR 0xA8],
      [CHR 0xE2, CHR 0x80, CHR 0xA9], [CHR 0xE2, CHR 0x80, CHR 0xAF],
      [CHR 0xE2, CHR 0x81, CHR 0x9F], [CHR 0xE3, CHR 0x80, CHR 0x80]]"

text \<open>
  Removing leading runes of a set, by their encodings: as long as one of the
  (non-empty) encodings is a prefix of the text, it is dropped.
\<close>

function strip_runes :: "string list \<Rightarrow> string \<Rightarrow> string" where
  "strip_runes rs s =
     (case List.find (\<lambda>r. r \<noteq> [] \<and> prefix r s) rs of
        None \<Rightarrow> s
      | Some r \<Rightarrow> strip_runes rs (drop (length r) s))"
  by pat_completeness auto
termination
proof (relation "measure (\<lambda>(rs, s). length s)")
  show "wf (measure (\<lambda>(rs, s). length s))" by simp
next
  fix rs :: "string list" and s r :: string
  assume "List.find (\<lambda>r. r \<noteq> [] \<and> prefix r s) rs = Some r"
  then have "r \<noteq> []" and "prefix r s"
    by (auto simp: find_Some_iff)
  then have "s \<noteq> []" by auto
  with \<open>r \<noteq> []\<close> show "((rs, drop (length r) s), (rs, s)) \<in> measure (\<lambda>(rs, s). length s)"
    by simp
qed

declare strip_runes.simps [simp del]

text \<open>
  \<open>strings.TrimSpace\<close>: leading white space is removed, then trailing white space
  (a trailing rune is found by its encoding being a suffix of the text).
\<close>

definition strings_TrimSpace :: "string \<Rightarrow> string" where
  "strings_TrimSpace s =
     rev (strip_runes (map rev space_runes) (rev (strip_runes space_runes s)))"

section \<open>The profile store (api/config.go)\<close>

definition ReadConfigFile :: "world \<Rightarrow> string \<Rightarrow> error + ConfigFile" where
  "ReadConfigFile w file =
     (case os_ReadFile w file of
        Inl err \<Rightarrow> Inl (CannotReadConfigFile err)
      | Inr f \<Rightarrow>
          (case yaml_Unmarshal_ConfigFile w f of
             Inl err \<Rightarrow> Inl (CannotUnmarshalConfigFile err)
           | Inr c \<Rightarrow> Inr c))"

definition ReadConfig :: "world \<Rightarrow> string \<Rightarrow> error + Config" where
  "ReadConfig w file =
     (case os_ReadFile w file of
        Inl err \<Rightarrow> Inl (CannotReadConfigFile err)
      | Inr f \<Rightarrow>
          (case yaml_Unmarshal_Config w f of
             Inl err \<Rightarrow> Inl (CannotUnmarshalConfigFile err)
           | Inr c \<Rightarrow> Inr c))"

text \<open>
  The store is a Go map, mutated in place: each load operation takes the store and
  returns the error it reports (\<open>None\<close> for \<open>nil\<close>) with the store it leaves behind.
\<close>

definition LoadConfigFile :: "world \<Rightarrow> ConfigMerger \<Rightarrow> string \<Rightarrow> error option \<times> ConfigMerger" where
  "LoadConfigFile w cm file =
     (case ReadConfig w file of
        Inl err \<Rightarrow> (Some (CannotReadConfigFile err), cm)
      | Inr c \<Rightarrow> (None, cm(Name c \<mapsto> c)))"

text \<open>The loop of \<open>LoadConfig\<close>; dereferencing a \<open>nil\<close> entry panics.\<close>

fun LoadConfig_loop :: "ConfigMerger \<Rightarrow> Config option list \<Rightarrow> error option \<times> ConfigMerger" where
  "LoadConfig_loop cm [] = (None, cm)"
| "LoadConfig_loop cm (None # ccs) = (Some (Panic ''nil pointer dereference''), cm)"
| "LoadConfig_loop cm (Some cc # ccs) = LoadConfig_loop (cm(Name cc \<mapsto> cc)) ccs"

definition LoadConfig :: "world \<Rightarrow> ConfigMerger \<Rightarrow> string \<Rightarrow> error option \<times> ConfigMerger" where
  "LoadConfig w cm file =
     (case ReadConfigFile w file of
        Inl err \<Rightarrow> (Some (CannotReadConfigFile err), cm)
      | Inr c \<Rightarrow> LoadConfig_loop cm (Configs c))"

text \<open>The loop of \<open>LoadConfigs\<close> over the names of the directory's entries.\<close>

fun LoadConfigs_loop :: "world \<Rightarrow> string \<Rightarrow> ConfigMerger \<Rightarrow> string list \<Rightarrow> ConfigMerger" where
  "LoadConfigs_loop w path cm [] = cm"
| "LoadConfigs_loop w path cm (file # files) =
     (if \<not> strings_Contains file ''.yaml'' then LoadConfigs_loop w path cm files
      else (case ReadConfig w (filepath_Join w path file) of
              Inr c \<Rightarrow> LoadConfigs_loop w path (cm(Name c \<mapsto> c)) files
            | Inl err \<Rightarrow> LoadConfigs_loop w path cm files))"

definition LoadConfigs :: "world \<Rightarrow> ConfigMerger \<Rightarrow> string \<Rightarrow> error option \<times> ConfigMerger" where
  "LoadConfigs w cm path =
     (case ioutil_ReadDir w path of
        Inl err \<Rightarrow> (Some err, cm)
      | Inr files \<Rightarrow> (None, LoadConfigs_loop w path cm files))"

text \<open>
  Sequences of load operations: what each leaves in the store, and the records it
  decodes.
\<close>

datatype load_op = LoadOne string | LoadMulti string | LoadDirectory string

fun run_load :: "world \<Rightarrow> ConfigMerger \<Rightarrow> load_op \<Rightarrow> ConfigMerger" where
  "run_load w cm (LoadOne file) = snd (LoadConfigFile w cm file)"
| "run_load w cm (LoadMulti file) = snd (LoadConfig w cm file)"
| "run_load w cm (LoadDirectory path) = snd (LoadConfigs w cm path)"

fun decoded :: "world \<Rightarrow> load_op \<Rightarrow> Config list" where
  "decoded w (LoadOne file) = (case ReadConfig w file of Inr c \<Rightarrow> [c] | Inl err \<Rightarrow> [])"
| "decoded w (LoadMulti file) =
     (case ReadConfigFile w file of Inr cf \<Rightarrow> [c. Some c \<leftarrow> Configs cf] | Inl err \<Rightarrow> [])"
| "decoded w (LoadDirectory path) =
     (case ioutil_ReadDir w path of
        Inr files \<Rightarrow> [c. file \<leftarrow> files, strings_Contains file ''.yaml'',
                        Inr c \<leftarrow> [ReadConfig w (filepath_Join w path file)]]
      | Inl err \<Rightarrow> [])"

section \<open>The request handler (api/openai.go, openAIEndpoint)\<close>

text \<open>
  Lines 154-178. \<open>authorization\<close> is the value of the request's authorization header
  (empty when the header is absent). The error of \<open>ListModels\<close> is dropped by the code.
\<close>

definition select_model :: "ModelLoader \<Rightarrow> string \<Rightarrow> OpenAIRequest \<Rightarrow> error + string" where
  "select_model loader authorization input =
    (let modelFile = Model input;
         bearer = strings_TrimLeft authorization ''Bearer '';
         bearerExists = (bearer \<noteq> [] \<and> ExistsInModelPath loader bearer)
     in case (if modelFile = [] \<and> \<not> bearerExists
              then (case fst (ListModels loader) of
                      [] \<Rightarrow> Inl NoModelSpecified
                    | m # ms \<Rightarrow> Inr m)
              else Inr modelFile) of
          Inl err \<Rightarrow> Inl err
        | Inr modelFile \<Rightarrow> Inr (if bearerExists then bearer else modelFile))"

text \<open>
  Lines 180-186: the companion file of the model, when \<open>os.Stat\<close> finds it, is loaded
  into the store with \<open>LoadConfig\<close>; an error of the load is returned to the caller.
\<close>

definition load_companion ::
  "world \<Rightarrow> ModelLoader \<Rightarrow> ConfigMerger \<Rightarrow> string \<Rightarrow> error option \<times> ConfigMerger" where
  "load_companion w loader cm modelFile =
    (let modelConfig = filepath_Join w (ModelPath loader) (modelFile @ ''.yaml'')
     in if os_Stat w modelConfig
        then (case LoadConfig w cm modelConfig of
                (None, cm') \<Rightarrow> (None, cm')
              | (Some (Panic p), cm') \<Rightarrow> (Some (Panic p), cm')
              | (Some err, cm') \<Rightarrow> (Some (FailedLoadingModelConfig err), cm'))
        else (None, cm))"

text \<open>Lines 213-227: the input text, built from the messages in chat mode.\<close>

definition chat_line :: "Config \<Rightarrow> Message \<Rightarrow> string" where
  "chat_line config i =
    (let r = (case Roles config (Role i) of None \<Rightarrow> [] | Some v \<Rightarrow> v);
         r' = (if r = [] then Role i else r)
     in r' @ '' '' @ Content i)"

definition build_predInput :: "bool \<Rightarrow> Config \<Rightarrow> OpenAIRequest \<Rightarrow> string" where
  "build_predInput chat config input =
     (if chat then strings_Join (map (chat_line config) (Messages input)) [CHR 0x0A]
      else Prompt input)"

text \<open>Lines 229-236: the name of the template.\<close>

definition templateFile_of :: "bool \<Rightarrow> Config \<Rightarrow> string" where
  "templateFile_of chat config =
    (let t0 = Model (Request config);
         t1 = (if Chat (TemplateConfig config) \<noteq> [] \<and> chat
               then Chat (TemplateConfig config) else t0);
         t2 = (if Completion (TemplateConfig config) \<noteq> [] \<and> \<not> chat
               then Completion (TemplateConfig config) else t1)
     in t2)"

text \<open>Lines 239-245: the template is applied when the loader returns no error.\<close>

definition apply_template :: "ModelLoader \<Rightarrow> bool \<Rightarrow> Config \<Rightarrow> string \<Rightarrow> string" where
  "apply_template loader chat config predInput =
     (case TemplatePrefix loader (templateFile_of chat config) predInput of
        Inr templatedInput \<Rightarrow> templatedInput
      | Inl err \<Rightarrow> predInput)"

text \<open>
  The package variable \<open>cutstrings\<close>: compiled expressions by pattern. Lines 271-280:
  each pattern is looked up, compiled and stored when absent (\<open>regexp.MustCompile\<close>
  panics on a pattern that does not compile), and its matches are removed.
\<close>

type_synonym regexp_cache = "string \<rightharpoonup> (string \<Rightarrow> string)"

fun cut_loop :: "world \<Rightarrow> string list \<Rightarrow> regexp_cache \<Rightarrow> string \<Rightarrow> (error + string) \<times> regexp_cache" where
  "cut_loop w [] cache prediction = (Inr prediction, cache)"
| "cut_loop w (c # cs) cache prediction =
     (case cache c of
        Some reg \<Rightarrow> cut_loop w cs cache (reg prediction)
      | None \<Rightarrow>
          (case regexp_MustCompile w c of
             None \<Rightarrow> (Inl (Panic ''regexp: Compile''), cache)
           | Some reg \<Rightarrow> cut_loop w cs (cache(c \<mapsto> reg)) (reg prediction)))"

text \<open>Lines 282-284.\<close>

fun trim_loop :: "string list \<Rightarrow> string \<Rightarrow> string" where
  "trim_loop [] prediction = prediction"
| "trim_loop (c # cs) prediction =
     trim_loop cs (strings_TrimSpace (strings_TrimPrefix prediction c))"

text \<open>Lines 267-284: what is done to one prediction.\<close>

definition postprocess ::
  "world \<Rightarrow> Config \<Rightarrow> string \<Rightarrow> regexp_cache \<Rightarrow> string \<Rightarrow> (error + string) \<times> regexp_cache" where
  "postprocess w config predInput cache prediction =
    (let p1 = (if Echo (Request config) then predInput @ prediction else prediction)
     in case cut_loop w (Cutstrings config) cache p1 of
          (Inl err, cache') \<Rightarrow> (Inl err, cache')
        | (Inr p2, cache') \<Rightarrow> (Inr (trim_loop (TrimSpace config) p2), cache'))"

text \<open>Lines 286-290.\<close>

definition make_choice :: "bool \<Rightarrow> string \<Rightarrow> Choice" where
  "make_choice chat prediction =
     (if chat
      then \<lparr>Index = 0, FinishReason = [],
            Choice_Message = Some \<lparr>Role = ''assistant'', Content = prediction\<rparr>, Text = []\<rparr>
      else \<lparr>Index = 0, FinishReason = [], Choice_Message = None, Text = prediction\<rparr>)"

text \<open>
  Lines 261-291, the loop \<open>for i := 0; i < n; i++\<close>. Besides the choices (or the error
  returned) the model returns the pattern cache the loop leaves behind and \<open>k\<close>, the
  number of invocations of \<open>predFunc\<close> made so far.
\<close>

function sample_loop ::
  "world \<Rightarrow> bool \<Rightarrow> Config \<Rightarrow> string \<Rightarrow> predFunc \<Rightarrow> int \<Rightarrow> int \<Rightarrow> regexp_cache \<Rightarrow> nat \<Rightarrow>
   Choice list \<Rightarrow> (error + Choice list) \<times> regexp_cache \<times> nat" where
  "sample_loop w chat config predInput predFunc n i cache k result =
    (if i < n then
       (case predFunc k of
          Inl err \<Rightarrow> (Inl err, cache, Suc k)
        | Inr prediction \<Rightarrow>
            (case postprocess w config predInput cache prediction of
               (Inl err, cache') \<Rightarrow> (Inl err, cache', Suc k)
             | (Inr prediction', cache') \<Rightarrow>
                 sample_loop w chat config predInput predFunc n (i + 1) cache' (Suc k)
                   (result @ [make_choice chat prediction'])))
     else (Inr result, cache, k))"
  by pat_completeness auto
termination
  by (relation "measure (\<lambda>(w, chat, config, predInput, predFunc, n, i, cache, k, result).
        nat (n - i))") auto

declare sample_loop.simps [simp del]

text \<open>
  What a call of the handler leaves behind: its result (the error returned, or the
  response handed to \<open>c.JSON\<close>), the profile store, the pattern cache, and the number
  of invocations of the inference callable it made.
\<close>

record handled =
  outcome :: "error + OpenAIResponse"
  store_after :: ConfigMerger
  cutstrings_after :: regexp_cache
  invocations :: nat

text \<open>
  Lines 154-209, from the model identifier to the configuration of the request: the
  error returned, or the configuration, with the store left behind.
\<close>

definition config_resolver ::
  "world \<Rightarrow> ConfigMerger \<Rightarrow> ModelLoader \<Rightarrow> int \<Rightarrow> int \<Rightarrow> bool \<Rightarrow> string \<Rightarrow> OpenAIRequest \<Rightarrow>
   (error + Config) \<times> ConfigMerger" where
  "config_resolver w cm loader threads ctx f16 authorization input =
    (case select_model loader authorization input of
       Inl err \<Rightarrow> (Inl err, cm)
     | Inr modelFile \<Rightarrow>
        (case load_companion w loader cm modelFile of
           (Some err, cm') \<Rightarrow> (Inl err, cm')
         | (None, cm') \<Rightarrow> (Inr (resolved_config cm' modelFile input threads ctx f16), cm')))"

text \<open>Lines 249-253.\<close>

definition sample_count :: "OpenAIRequest \<Rightarrow> int" where
  "sample_count input = (if N input = 0 then 1 else N input)"

text \<open>
  Lines 261-300: the loop and the response, whose model field is the one the caller
  sent.
\<close>

definition respond ::
  "world \<Rightarrow> ConfigMerger \<Rightarrow> bool \<Rightarrow> Config \<Rightarrow> string \<Rightarrow> predFunc \<Rightarrow> int \<Rightarrow> OpenAIRequest \<Rightarrow>
   regexp_cache \<Rightarrow> handled" where
  "respond w cm chat config predInput predFunc n input cache =
    (case sample_loop w chat config predInput predFunc n 0 cache 0 [] of
       (Inl err, cache', k) \<Rightarrow>
         \<lparr>outcome = Inl err, store_after = cm, cutstrings_after = cache', invocations = k\<rparr>
     | (Inr result, cache', k) \<Rightarrow>
         \<lparr>outcome = Inr \<lparr>Created = 0, Object = [], ID = [], Response_Model = Model input,
                        Choices = result\<rparr>,
          store_after = cm, cutstrings_after = cache', invocations = k\<rparr>)"

text \<open>Lines 249-300: the callable is obtained from \<open>ModelInference\<close>, then used.\<close>

definition infer_and_respond ::
  "world \<Rightarrow> ModelInference \<Rightarrow> ConfigMerger \<Rightarrow> bool \<Rightarrow> ModelLoader \<Rightarrow> Config \<Rightarrow> string \<Rightarrow>
   OpenAIRequest \<Rightarrow> regexp_cache \<Rightarrow> handled" where
  "infer_and_respond w inference cm chat loader config predInput input cache =
    (let n = sample_count input
     in case inference predInput loader config of
          Inl err \<Rightarrow>
            \<lparr>outcome = Inl err, store_after = cm, cutstrings_after = cache, invocations = 0\<rparr>
        | Inr predFunc \<Rightarrow> respond w cm chat config predInput predFunc n input cache)"

text \<open>
  The handler. \<open>body\<close> is the result of \<open>c.BodyParser\<close>, \<open>cache\<close> the package variable
  \<open>cutstrings\<close> when the request arrives.
\<close>

definition openAIEndpoint ::
  "world \<Rightarrow> ModelInference \<Rightarrow> ConfigMerger \<Rightarrow> bool \<Rightarrow> bool \<Rightarrow> ModelLoader \<Rightarrow> int \<Rightarrow> int \<Rightarrow> bool \<Rightarrow>
   regexp_cache \<Rightarrow> string \<Rightarrow> error + OpenAIRequest \<Rightarrow> handled" where
  "openAIEndpoint w inference cm chat debug loader threads ctx f16 cache authorization body =
    (case body of
       Inl err \<Rightarrow>
         \<lparr>outcome = Inl err, store_after = cm, cutstrings_after = cache, invocations = 0\<rparr>
     | Inr input \<Rightarrow>
        (case config_resolver w cm loader threads ctx f16 authorization input of
           (Inl err, cm') \<Rightarrow>
             \<lparr>outcome = Inl err, store_after = cm', cutstrings_after = cache, invocations = 0\<rparr>
         | (Inr config, cm') \<Rightarrow>
             infer_and_respond w inference cm' chat loader config
               (apply_template loader chat config (build_predInput chat config input))
               input cache))"

section \<open>Slices\<close>

text \<open>
  A Go slice is a view of a backing array: the array, a length and a capacity.
  Copying a \<open>Config\<close> out of the store copies the views, not the arrays, so the copy
  and the stored entry share the array of \<open>StopWords\<close>. \<open>append\<close> writes in place
  when capacity is left, and otherwise copies the elements to a new array, whose
  address and capacity the run-time system chooses (parameters here). The rest of the
  model takes a slice for the list of its elements; \<open>elems\<close> is that list.
\<close>

record slice =
  array :: nat
  len :: nat
  cap :: nat

type_synonym arrays = "nat \<Rightarrow> string list"

definition elems :: "arrays \<Rightarrow> slice \<Rightarrow> string list" where
  "elems h s = take (len s) (h (array s))"

definition go_append :: "nat \<Rightarrow> nat \<Rightarrow> arrays \<Rightarrow> slice \<Rightarrow> string \<Rightarrow> arrays \<times> slice" where
  "go_append fresh newcap h s v =
     (if len s < cap s
      then (h(array s := (h (array s))[len s := v]), s\<lparr>len := len s + 1\<rparr>)
      else (h(fresh := elems h s @ [v] @ replicate (newcap - (len s + 1)) []),
            \<lparr>array = fresh, len = len s + 1, cap = newcap\<rparr>))"

text \<open>Lines 113-115 of \<open>updateConfig\<close>, on the view held by the copied \<open>Config\<close>.\<close>

definition append_StopWords ::
  "nat \<Rightarrow> nat \<Rightarrow> arrays \<Rightarrow> slice \<Rightarrow> OpenAIRequest \<Rightarrow> arrays \<times> slice" where
  "append_StopWords fresh newcap h s input =
     (if Stop input \<noteq> [] then go_append fresh newcap h s (Stop input) else (h, s))"

section \<open>The pattern cache and the text of a choice\<close>

text \<open>
  The pattern cache is empty when the process starts and only the handler writes to
  it, storing under a pattern what \<open>regexp.MustCompile\<close> returned for it:
\<close>

definition cache_ok :: "world \<Rightarrow> regexp_cache \<Rightarrow> bool" where
  "cache_ok w cache = (\<forall>c reg. cache c = Some reg \<longrightarrow> regexp_MustCompile w c = Some reg)"

text \<open>
  The text post-processing gives for a prediction when the cut-string patterns of the
  configuration compile to the expressions \<open>regs\<close> (each given by its removal
  function): the input is prepended when echo is set, the expressions are applied in
  order, then the trims.
\<close>

definition cleaned :: "Config \<Rightarrow> (string \<Rightarrow> string) list \<Rightarrow> string \<Rightarrow> string \<Rightarrow> string" where
  "cleaned config regs predInput prediction =
     trim_loop (TrimSpace config)
       (fold (\<lambda>reg. reg) regs
          (if Echo (Request config) then predInput @ prediction else prediction))"

section \<open>Concrete scenarios\<close>

text \<open>A stored profile named \<open>gpt\<close>, and a request that overrides every parameter.\<close>

definition ex_profile :: Config where
  "ex_profile =
     zero_Config\<lparr>Request := zero_OpenAIRequest\<lparr>Model := ''ggml.bin'', TopP := 1 / 2,
                   TopK := 40, Temperature := 1 / 5, Maxtokens := 64, Batch := 8,
                   RepeatPenalty := 11 / 10, Keep := 2, Seed := 7\<rparr>,
       Name := ''gpt'', StopWords := [''###''], ContextSize := 256, Threads := 2\<rparr>"

definition ex_store :: ConfigMerger where
  "ex_store = [''gpt'' \<mapsto> ex_profile]"

definition ex_overrides :: OpenAIRequest where
  "ex_overrides =
     \<lparr>Model = ''gpt'', Prompt = ''Hello'', Stop = ''END'', Messages = [], Echo = True,
      TopP = 9 / 10, TopK = 5, Temperature = 1, Maxtokens = 16, N = 3, Batch = 4,
      F16 = True, IgnoreEOS = True, RepeatPenalty = 2, Keep = 1, Seed = 42\<rparr>"

text \<open>A model loader that knows two models, and one that knows none.\<close>

definition ex_loader :: ModelLoader where
  "ex_loader =
     \<lparr>ModelPath = ''/models'',
      ExistsInModelPath = (\<lambda>m. m = ''ggml.bin'' \<or> m = ''vicuna.bin''),
      ListModels = ([''ggml.bin'', ''vicuna.bin''], None),
      TemplatePrefix = (\<lambda>name input.
        if name = ''chat-tmpl'' then Inr (''### '' @ input)
        else Inl (External ''template not found''))\<rparr>"

definition empty_loader :: ModelLoader where
  "empty_loader =
     \<lparr>ModelPath = ''/models'', ExistsInModelPath = (\<lambda>m. False),
      ListModels = ([], Some (External ''cannot list'')),
      TemplatePrefix = (\<lambda>name input. Inl (External ''template not found''))\<rparr>"

text \<open>
  A refreshed version of the profile, as a companion file of the model would hold it,
  and a profile without a name.
\<close>

definition ex_refreshed :: Config where
  "ex_refreshed = ex_profile\<lparr>Request := (Request ex_profile)\<lparr>TopK := 10\<rparr>\<rparr>"

definition ex_unnamed :: Config where
  "ex_unnamed = zero_Config\<lparr>Config_F16 := True\<rparr>"

text \<open>Removing every occurrence of a literal text, leftmost first.\<close>

fun remove_literal :: "string \<Rightarrow> nat \<Rightarrow> string \<Rightarrow> string" where
  "remove_literal lit skip [] = []"
| "remove_literal lit skip (x # xs) =
     (if 0 < skip then remove_literal lit (skip - 1) xs
      else if lit \<noteq> [] \<and> prefix lit (x # xs) then remove_literal lit (length lit - 1) xs
      else x # remove_literal lit 0 xs)"

text \<open>
  A world. The directory \<open>/profiles\<close> holds a profile that does not decode and one that
  decodes to \<open>ex_profile\<close>; the directory \<open>/mixed\<close> holds a file that is not a profile,
  a profile without a name and the profile \<open>gpt\<close>. Under \<open>/models\<close> the model \<open>gpt\<close>
  has a companion file that decodes to the refreshed profile, the model \<open>locked\<close> has
  one that cannot be read, and no other model has one. The pattern \<open>Hello\<close> compiles to
  an expression matching that text; no other pattern compiles.
\<close>

definition ex_world :: world where
  "ex_world =
     \<lparr>os_ReadFile = (\<lambda>file.
        if file = ''/profiles/bad.yaml'' then Inr ''name: [''
        else if file = ''/profiles/good.yaml'' \<or> file = ''/mixed/good.yaml''
          then Inr ''name: gpt''
        else if file = ''/mixed/unnamed.yaml'' then Inr ''f16: true''
        else if file = ''/mixed/README.md'' then Inr ''profiles''
        else if file = ''/models/gpt.yaml'' then Inr ''configs: gpt''
        else Inl (External ''cannot read'')),
      os_Stat = (\<lambda>file. file = ''/models/gpt.yaml'' \<or> file = ''/models/locked.yaml''),
      ioutil_ReadDir = (\<lambda>path.
        if path = ''/profiles'' then Inr [''bad.yaml'', ''good.yaml'']
        else if path = ''/mixed'' then Inr [''README.md'', ''unnamed.yaml'', ''good.yaml'']
        else Inl (External ''no such directory'')),
      filepath_Join = (\<lambda>dir file. dir @ ''/'' @ file),
      yaml_Unmarshal_Config = (\<lambda>f.
        if f = ''name: gpt'' then Inr ex_profile
        else if f = ''f16: true'' then Inr ex_unnamed
        else Inl (External ''yaml: did not find expected node content'')),
      yaml_Unmarshal_ConfigFile = (\<lambda>f.
        if f = ''configs: gpt'' then Inr \<lparr>Configs = [Some ex_refreshed]\<rparr>
        else Inl (External ''yaml: did not find expected node content'')),
      regexp_MustCompile = (\<lambda>c.
        if c = ''Hello'' then Some (remove_literal ''Hello'' 0) else None)\<rparr>"

text \<open>An inference engine whose callable returns the same text at every invocation.\<close>

definition ex_inference :: ModelInference where
  "ex_inference = (\<lambda>predInput loader config. Inr (\<lambda>k. Inr ''Hello world''))"

text \<open>
  Requests for the model \<open>locked\<close> and for the model \<open>vicuna.bin\<close>, a profile with
  templates, and the world without any companion file.
\<close>

definition ex_locked_request :: OpenAIRequest where
  "ex_locked_request = zero_OpenAIRequest\<lparr>Model := ''locked''\<rparr>"

definition ex_vicuna_request :: OpenAIRequest where
  "ex_vicuna_request = zero_OpenAIRequest\<lparr>Model := ''vicuna.bin'', Prompt := ''Hello''\<rparr>"

definition ex_templated :: Config where
  "ex_templated = ex_profile\<lparr>TemplateConfig := \<lparr>Completion = ''comp-tmpl'', Chat = ''chat-tmpl''\<rparr>\<rparr>"

definition bare_world :: world where
  "bare_world = ex_world\<lparr>os_Stat := (\<lambda>file. False)\<rparr>"

text \<open>
  Profiles with echo and the cut-string \<open>Hello\<close>, without and with a trim entry, and a
  profile whose cut-string does not compile; an inference callable that returns three
  texts and then fails; a request for five samples.
\<close>

definition ex_echo :: Config where
  "ex_echo = ex_profile\<lparr>Request := (Request ex_profile)\<lparr>Echo := True\<rparr>, Cutstrings := [''Hello'']\<rparr>"

definition ex_echo_trim :: Config where
  "ex_echo_trim = ex_echo\<lparr>TrimSpace := [[]]\<rparr>"

definition ex_badcut :: Config where
  "ex_badcut = ex_profile\<lparr>Cutstrings := [''('']\<rparr>"

definition ex_predFunc :: predFunc where
  "ex_predFunc = (\<lambda>k.
     if k = 0 then Inr ''Hello one'' else if k = 1 then Inr ''two''
     else if k = 2 then Inr ''three'' else Inl (External ''engine failed''))"

definition ex_five :: OpenAIRequest where
  "ex_five = ex_overrides\<lparr>N := 5\<rparr>"

definition bad_store :: ConfigMerger where
  "bad_store = [''gpt'' \<mapsto> ex_badcut]"

text \<open>
  Arrays in which the stop words of the profile \<open>gpt\<close> are the first element of an
  array of two, and the view of them held by the stored profile.
\<close>

definition ex_arrays :: arrays where
  "ex_arrays = (\<lambda>a. if a = 0 then [''###'', []] else [])"

definition ex_slice :: slice where
  "ex_slice = \<lparr>array = 0, len = 1, cap = 2\<rparr>"

section \<open>The override merge\<close>

lemma if_Request:
  "(if b then c\<lparr>Request := r\<rparr> else c) = c\<lparr>Request := (if b then r else Request c)\<rparr>"
  by simp

lemma if_fields:
  "(if b then r\<lparr>Echo := v1\<rparr> else r) = r\<lparr>Echo := (if b then v1 else Echo r)\<rparr>"
  "(if b then r\<lparr>TopK := v2\<rparr> else r) = r\<lparr>TopK := (if b then v2 else TopK r)\<rparr>"
  "(if b then r\<lparr>TopP := v3\<rparr> else r) = r\<lparr>TopP := (if b then v3 else TopP r)\<rparr>"
  "(if b then r\<lparr>Temperature := v3\<rparr> else r) =
     r\<lparr>Temperature := (if b then v3 else Temperature r)\<rparr>"
  "(if b then r\<lparr>Maxtokens := v2\<rparr> else r) = r\<lparr>Maxtokens := (if b then v2 else Maxtokens r)\<rparr>"
  "(if b then r\<lparr>RepeatPenalty := v3\<rparr> else r) =
     r\<lparr>RepeatPenalty := (if b then v3 else RepeatPenalty r)\<rparr>"
  "(if b then r\<lparr>Keep := v2\<rparr> else r) = r\<lparr>Keep := (if b then v2 else Keep r)\<rparr>"
  "(if b then r\<lparr>Batch := v2\<rparr> else r) = r\<lparr>Batch := (if b then v2 else Batch r)\<rparr>"
  "(if b then r\<lparr>IgnoreEOS := v1\<rparr> else r) = r\<lparr>IgnoreEOS := (if b then v1 else IgnoreEOS r)\<rparr>"
  "(if b then r\<lparr>Seed := v2\<rparr> else r) = r\<lparr>Seed := (if b then v2 else Seed r)\<rparr>"
  "(if b then c\<lparr>StopWords := v4\<rparr> else c) = c\<lparr>StopWords := (if b then v4 else StopWords c)\<rparr>"
  "(if b then c\<lparr>Config_F16 := v1\<rparr> else c) =
     c\<lparr>Config_F16 := (if b then v1 else Config_F16 c)\<rparr>"
  "(if b then c\<lparr>Threads := v2\<rparr> else c) = c\<lparr>Threads := (if b then v2 else Threads c)\<rparr>"
  "(if b then c\<lparr>ContextSize := v2\<rparr> else c) =
     c\<lparr>ContextSize := (if b then v2 else ContextSize c)\<rparr>"
  by simp_all

text \<open>The twelve statements of \<open>updateConfig\<close> write distinct fields: one update each.\<close>

lemma updateConfig_normal:
  "updateConfig config input =
     config\<lparr>Request := (Request config)
        \<lparr>Echo := (if Echo input then Echo input else Echo (Request config)),
         TopK := (if TopK input \<noteq> 0 then TopK input else TopK (Request config)),
         TopP := (if TopP input \<noteq> 0 then TopP input else TopP (Request config)),
         Temperature := (if Temperature input \<noteq> 0 then Temperature input
                         else Temperature (Request config)),
         Maxtokens := (if Maxtokens input \<noteq> 0 then Maxtokens input
                       else Maxtokens (Request config)),
         RepeatPenalty := (if RepeatPenalty input \<noteq> 0 then RepeatPenalty input
                           else RepeatPenalty (Request config)),
         Keep := (if Keep input \<noteq> 0 then Keep input else Keep (Request config)),
         Batch := (if Batch input \<noteq> 0 then Batch input else Batch (Request config)),
         IgnoreEOS := (if IgnoreEOS input then IgnoreEOS input
                       else IgnoreEOS (Request config)),
         Seed := (if Seed input \<noteq> 0 then Seed input else Seed (Request config))\<rparr>,
       StopWords := (if Stop input \<noteq> [] then StopWords config @ [Stop input]
                     else StopWords config),
       Config_F16 := (if F16 input then F16 input else Config_F16 config)\<rparr>"
  by (simp add: updateConfig_def Let_def if_Request if_fields
           split del: if_split cong: if_cong)

lemma server_forced_normal:
  "server_forced threads ctx f16 config =
     config\<lparr>Threads := (if threads \<noteq> 0 then threads else Threads config),
            ContextSize := (if ctx \<noteq> 0 then ctx else ContextSize config),
            Config_F16 := (if f16 then True else Config_F16 config)\<rparr>"
  by (simp add: server_forced_def Let_def if_fields split del: if_split cong: if_cong)

lemmas resolved_simps = resolved_config_def updateConfig_normal server_forced_normal

lemmas ex_simps =
  ex_profile_def ex_store_def ex_overrides_def zero_Config_def zero_OpenAIRequest_def
  defaultRequest_def starting_config_def

lemmas world_simps =
  ex_world_def ex_loader_def empty_loader_def ex_refreshed_def ex_unnamed_def
  ex_inference_def ex_locked_request_def ex_vicuna_request_def ex_templated_def
  bare_world_def

text \<open>
  Claim C1, as amended. Let \<open>P\<close> be the starting profile (the stored one or the
  synthesized default) and \<open>R\<close> the resolved configuration. For each of echo, top-k,
  top-p, temperature, max-tokens, repeat-penalty, keep, batch, ignore-eos and seed, an
  override that is zero or false leaves the field of \<open>R\<close> equal to the field of \<open>P\<close>, and
  an override that is not replaces it. For f16 a true override sets the field; a false
  override leaves the field as \<open>updateConfig\<close> found it, and the field of \<open>R\<close> is equal
  to the field of \<open>P\<close> when the server does not force half precision, and true when it
  does.
\<close>

theorem C1_override_merge:
  "let P = starting_config cm modelFile;
       R = resolved_config cm modelFile input threads ctx half
   in (\<not> Echo input \<longrightarrow> Echo (Request R) = Echo (Request P)) \<and>
      (Echo input \<longrightarrow> Echo (Request R) = Echo input) \<and>
      (TopK input = 0 \<longrightarrow> TopK (Request R) = TopK (Request P)) \<and>
      (TopK input \<noteq> 0 \<longrightarrow> TopK (Request R) = TopK input) \<and>
      (TopP input = 0 \<longrightarrow> TopP (Request R) = TopP (Request P)) \<and>
      (TopP input \<noteq> 0 \<longrightarrow> TopP (Request R) = TopP input) \<and>
      (Temperature input = 0 \<longrightarrow> Temperature (Request R) = Temperature (Request P)) \<and>
      (Temperature input \<noteq> 0 \<longrightarrow> Temperature (Request R) = Temperature input) \<and>
      (Maxtokens input = 0 \<longrightarrow> Maxtokens (Request R) = Maxtokens (Request P)) \<and>
      (Maxtokens input \<noteq> 0 \<longrightarrow> Maxtokens (Request R) = Maxtokens input) \<and>
      (RepeatPenalty input = 0 \<longrightarrow> RepeatPenalty (Request R) = RepeatPenalty (Request P)) \<and>
      (RepeatPenalty input \<noteq> 0 \<longrightarrow> RepeatPenalty (Request R) = RepeatPenalty input) \<and>
      (Keep input = 0 \<longrightarrow> Keep (Request R) = Keep (Request P)) \<and>
      (Keep input \<noteq> 0 \<longrightarrow> Keep (Request R) = Keep input) \<and>
      (Batch input = 0 \<longrightarrow> Batch (Request R) = Batch (Request P)) \<and>
      (Batch input \<noteq> 0 \<longrightarrow> Batch (Request R) = Batch input) \<and>
      (\<not> IgnoreEOS input \<longrightarrow> IgnoreEOS (Request R) = IgnoreEOS (Request P)) \<and>
      (IgnoreEOS input \<longrightarrow> IgnoreEOS (Request R) = IgnoreEOS input) \<and>
      (Seed input = 0 \<longrightarrow> Seed (Request R) = Seed (Request P)) \<and>
      (Seed input \<noteq> 0 \<longrightarrow> Seed (Request R) = Seed input) \<and>
      (F16 input \<longrightarrow> Config_F16 R = F16 input) \<and>
      (\<not> F16 input \<longrightarrow> Config_F16 (updateConfig P input) = Config_F16 P) \<and>
      (\<not> F16 input \<and> \<not> half \<longrightarrow> Config_F16 R = Config_F16 P) \<and>
      (\<not> F16 input \<and> half \<longrightarrow> Config_F16 R = True)"
  by (simp add: Let_def resolved_simps)

text \<open>
  The theorem at three requests for the stored profile \<open>gpt\<close>: one with no override,
  one overriding every field, and one with no override on a server that forces half
  precision; and at a request with no override for a model that has no profile.
\<close>

theorem C1_override_merge_witness:
  "(let R = resolved_config ex_store ''gpt'' zero_OpenAIRequest 0 0 False
    in Echo (Request R) = False \<and> TopK (Request R) = 40 \<and> TopP (Request R) = 1 / 2 \<and>
       Temperature (Request R) = 1 / 5 \<and> Maxtokens (Request R) = 64 \<and>
       RepeatPenalty (Request R) = 11 / 10 \<and> Keep (Request R) = 2 \<and>
       Batch (Request R) = 8 \<and> IgnoreEOS (Request R) = False \<and> Seed (Request R) = 7 \<and>
       Config_F16 R = False) \<and>
   (let R = resolved_config ex_store ''gpt'' ex_overrides 0 0 False
    in Echo (Request R) = True \<and> TopK (Request R) = 5 \<and> TopP (Request R) = 9 / 10 \<and>
       Temperature (Request R) = 1 \<and> Maxtokens (Request R) = 16 \<and>
       RepeatPenalty (Request R) = 2 \<and> Keep (Request R) = 1 \<and> Batch (Request R) = 4 \<and>
       IgnoreEOS (Request R) = True \<and> Seed (Request R) = 42 \<and> Config_F16 R = True) \<and>
   Config_F16 (resolved_config ex_store ''gpt'' zero_OpenAIRequest 0 0 True) = True \<and>
   (let R = resolved_config ex_store ''other'' zero_OpenAIRequest 0 0 False
    in TopK (Request R) = 80 \<and> TopP (Request R) = 7 / 10 \<and> Maxtokens (Request R) = 512 \<and>
       Temperature (Request R) = 9 / 10)"
  using C1_override_merge [where input = zero_OpenAIRequest and cm = ex_store and modelFile = "''gpt''" and threads = 0 and ctx = 0 and half = False]
    C1_override_merge [where input = ex_overrides and cm = ex_store and modelFile = "''gpt''" and threads = 0 and ctx = 0 and half = False]
    C1_override_merge [where input = zero_OpenAIRequest and cm = ex_store and modelFile = "''gpt''" and threads = 0 and ctx = 0 and half = True]
    C1_override_merge [where input = zero_OpenAIRequest and cm = ex_store and modelFile = "''other''" and threads = 0 and ctx = 0 and half = False]
  by (simp add: Let_def ex_simps)

text \<open>
  Claim C1 as stated fails for f16: with no f16 override, on a server that forces half
  precision, the resolved field is true while the starting profile's is false.
\<close>

theorem C1_counterexample:
  "F16 zero_OpenAIRequest = False \<and>
   Config_F16 (starting_config ex_store ''gpt'') = False \<and>
   Config_F16 (resolved_config ex_store ''gpt'' zero_OpenAIRequest 0 0 True) = True"
  by (simp add: resolved_simps ex_simps)

text \<open>
  Claim C7. With \<open>S\<close> the stop-pattern list of the starting profile, a request with a
  non-empty stop value resolves to a list of length \<open>length S + 1\<close> whose first
  \<open>length S\<close> entries are \<open>S\<close> and whose last entry is the stop value; an empty stop
  value leaves the list equal to \<open>S\<close>.
\<close>

theorem C7_stop_appended:
  "let S = StopWords (starting_config cm modelFile);
       R = resolved_config cm modelFile input threads ctx half
   in (Stop input \<noteq> [] \<longrightarrow>
         length (StopWords R) = length S + 1 \<and> take (length S) (StopWords R) = S \<and>
         last (StopWords R) = Stop input) \<and>
      (Stop input = [] \<longrightarrow> StopWords R = S)"
  by (simp add: Let_def resolved_simps)

theorem C7_stop_appended_witness:
  "StopWords (resolved_config ex_store ''gpt'' ex_overrides 4 512 True) = [''###'', ''END''] \<and>
   StopWords (resolved_config ex_store ''gpt'' zero_OpenAIRequest 4 512 True) = [''###''] \<and>
   StopWords (resolved_config ex_store ''other'' ex_overrides 0 0 False) = [''END'']"
  using C7_stop_appended [where input = ex_overrides and cm = ex_store and modelFile = "''gpt''" and threads = 4 and ctx = 512 and half = True]
    C7_stop_appended [where input = zero_OpenAIRequest and cm = ex_store and modelFile = "''gpt''" and threads = 4 and ctx = 512 and half = True]
    C7_stop_appended [where input = ex_overrides and cm = ex_store and modelFile = "''other''" and threads = 0 and ctx = 0 and half = False]
  by (simp add: Let_def resolved_simps ex_simps)

section \<open>Model selection\<close>



section \<open>The profile store\<close>

lemma LoadConfigs_loop_fold:
  "LoadConfigs_loop w path cm files =
     foldl (\<lambda>m c. m(Name c \<mapsto> c)) cm
       [c. file \<leftarrow> files, strings_Contains file ''.yaml'',
           Inr c \<leftarrow> [ReadConfig w (filepath_Join w path file)]]"
  by (induction files arbitrary: cm) (auto split: sum.splits)

text \<open>
  Claim C8. \<open>LoadConfigs\<close> fails only when the directory cannot be listed, with the
  error of the listing and the store untouched. Otherwise it returns no error, and the
  store receives, in the order of the listing, the profile of each file whose name
  contains \<open>.yaml\<close> and that reads and decodes; a file that does not contributes
  nothing. In particular, for a directory of one well-formed and one malformed profile
  file (in either order), the call returns no error and the store is the old one with
  the well-formed profile under its name.
\<close>

theorem C8_directory_resilience:
  "(ioutil_ReadDir w path = Inl err \<longrightarrow> LoadConfigs w cm path = (Some err, cm)) \<and>
   (ioutil_ReadDir w path = Inr files \<longrightarrow>
      LoadConfigs w cm path =
        (None, foldl (\<lambda>m c. m(Name c \<mapsto> c)) cm
                 [c. file \<leftarrow> files, strings_Contains file ''.yaml'',
                     Inr c \<leftarrow> [ReadConfig w (filepath_Join w path file)]])) \<and>
   (strings_Contains good ''.yaml'' \<and> strings_Contains bad ''.yaml'' \<and>
    ReadConfig w (filepath_Join w path good) = Inr c \<and>
    ReadConfig w (filepath_Join w path bad) = Inl e \<and>
    (ioutil_ReadDir w path = Inr [good, bad] \<or> ioutil_ReadDir w path = Inr [bad, good]) \<longrightarrow>
      LoadConfigs w cm path = (None, cm(Name c \<mapsto> c)))"
  by (auto simp: LoadConfigs_def LoadConfigs_loop_fold)

theorem C8_directory_resilience_witness:
  "LoadConfigs ex_world Map.empty ''/profiles'' = (None, [''gpt'' \<mapsto> ex_profile]) \<and>
   ReadConfig ex_world ''/profiles/bad.yaml'' =
     Inl (CannotUnmarshalConfigFile (External ''yaml: did not find expected node content'')) \<and>
   LoadConfigs ex_world ex_store ''/nowhere'' = (Some (External ''no such directory''), ex_store)"
proof -
  have good: "ReadConfig ex_world (filepath_Join ex_world ''/profiles'' ''good.yaml'') =
      Inr ex_profile"
    by (simp add: ReadConfig_def ex_world_def)
  have bad: "ReadConfig ex_world (filepath_Join ex_world ''/profiles'' ''bad.yaml'') =
      Inl (CannotUnmarshalConfigFile (External ''yaml: did not find expected node content''))"
    by (simp add: ReadConfig_def ex_world_def)
  have dir: "ioutil_ReadDir ex_world ''/profiles'' = Inr [''bad.yaml'', ''good.yaml'']"
    and nodir: "ioutil_ReadDir ex_world ''/nowhere'' = Inl (External ''no such directory'')"
    by (simp_all add: ex_world_def)
  have name: "Name ex_profile = ''gpt''"
    by (simp add: ex_simps)
  have yaml: "strings_Contains ''good.yaml'' ''.yaml''" "strings_Contains ''bad.yaml'' ''.yaml''"
    by simp_all
  from C8_directory_resilience [where w = ex_world and path = "''/profiles''"
      and good = "''good.yaml''" and bad = "''bad.yaml''" and c = ex_profile
      and cm = Map.empty] good bad dir yaml
  have "LoadConfigs ex_world Map.empty ''/profiles'' = (None, [Name ex_profile \<mapsto> ex_profile])"
    by simp
  moreover from C8_directory_resilience [where w = ex_world and path = "''/nowhere''"
      and cm = ex_store] nodir
  have "LoadConfigs ex_world ex_store ''/nowhere'' = (Some (External ''no such directory''), ex_store)"
    by simp
  moreover from bad have "ReadConfig ex_world ''/profiles/bad.yaml'' =
      Inl (CannotUnmarshalConfigFile (External ''yaml: did not find expected node content''))"
    by (simp add: ex_world_def)
  ultimately show ?thesis
    by (simp add: name)
qed

lemma dom_foldl_insert:
  "dom (foldl (\<lambda>m c. m(Name c \<mapsto> c)) cm cs) = dom cm \<union> Name ` set cs"
  by (induction cs arbitrary: cm) auto

lemma foldl_insert_other:
  "name \<notin> Name ` set cs \<Longrightarrow> foldl (\<lambda>m c. m(Name c \<mapsto> c)) cm cs name = cm name"
  by (induction cs arbitrary: cm) auto

lemma LoadConfig_loop_fold:
  "None \<notin> set ccs \<Longrightarrow>
   LoadConfig_loop cm ccs = (None, foldl (\<lambda>m c. m(Name c \<mapsto> c)) cm [c. Some c \<leftarrow> ccs])"
  by (induction cm ccs rule: LoadConfig_loop.induct) auto

lemma LoadConfig_loop_other:
  "name \<notin> Name ` {c. Some c \<in> set ccs} \<Longrightarrow> snd (LoadConfig_loop cm ccs) name = cm name"
proof (induction cm ccs rule: LoadConfig_loop.induct)
  case (3 cm cc ccs)
  from "3.prems" have ne: "name \<noteq> Name cc" and rest: "name \<notin> Name ` {c. Some c \<in> set ccs}"
    by auto
  from "3.IH" [OF rest] have "snd (LoadConfig_loop (cm(Name cc \<mapsto> cc)) ccs) name =
      (cm(Name cc \<mapsto> cc)) name" .
  also from ne have "\<dots> = cm name" by simp
  finally show ?case by simp
qed simp_all

lemma set_Some_entries: "set [c. Some c \<leftarrow> ccs] = {c. Some c \<in> set ccs}"
  by (auto split: option.splits)

lemma LoadConfig_loop_dom:
  "dom (snd (LoadConfig_loop cm ccs)) \<subseteq> dom cm \<union> Name ` set [c. Some c \<leftarrow> ccs]"
proof
  fix name
  assume in_dom: "name \<in> dom (snd (LoadConfig_loop cm ccs))"
  show "name \<in> dom cm \<union> Name ` set [c. Some c \<leftarrow> ccs]"
  proof (cases "name \<in> Name ` {c. Some c \<in> set ccs}")
    case True
    then show ?thesis by (simp only: set_Some_entries UnI2)
  next
    case False
    then have "snd (LoadConfig_loop cm ccs) name = cm name"
      by (rule LoadConfig_loop_other)
    with in_dom show ?thesis by (simp add: dom_def)
  qed
qed

lemma run_load_dom: "dom (run_load w cm op) \<subseteq> dom cm \<union> Name ` set (decoded w op)"
proof (cases op)
  case (LoadOne fname)
  then show ?thesis
    by (auto simp: LoadConfigFile_def split: sum.splits)
next
  case (LoadMulti fname)
  then show ?thesis
    using LoadConfig_loop_dom [of cm]
    by (auto simp: LoadConfig_def split: sum.splits)
next
  case (LoadDirectory path)
  then show ?thesis
    by (auto simp: LoadConfigs_def LoadConfigs_loop_fold dom_foldl_insert
        simp del: set_concat split: sum.splits)
qed

lemma run_loads_dom:
  "dom (foldl (run_load w) cm ops) \<subseteq> dom cm \<union> Name ` set (concat (map (decoded w) ops))"
proof (induction ops arbitrary: cm)
  case Nil
  show ?case by simp
next
  case (Cons op ops)
  from Cons.IH [of "run_load w cm op"] run_load_dom [of w cm op]
  show ?case by auto
qed

text \<open>
  Claim C5, as amended. The load operations insert every record they decode under its
  name field, whatever the name: \<open>LoadConfigFile\<close> stores the decoded record under its
  name, and under the empty name when the record has none; after \<open>LoadConfig\<close> (on a
  file without \<open>nil\<close> entries) and after \<open>LoadConfigs\<close> the keys of the store are the
  keys it had and the names of the records decoded, the empty name included; and after
  any sequence of load operations every key of the store is a key it had or the name
  of a record one of them decoded.
\<close>

theorem C5_store_keys:
  "(ReadConfig w fname = Inr c \<longrightarrow> LoadConfigFile w cm fname = (None, cm(Name c \<mapsto> c))) \<and>
   (ReadConfig w fname = Inr c \<and> Name c = [] \<longrightarrow> snd (LoadConfigFile w cm fname) [] = Some c) \<and>
   (ReadConfigFile w fname = Inr cf \<and> None \<notin> set (Configs cf) \<longrightarrow>
      fst (LoadConfig w cm fname) = None \<and>
      dom (snd (LoadConfig w cm fname)) = dom cm \<union> Name ` {c. Some c \<in> set (Configs cf)}) \<and>
   (ioutil_ReadDir w path = Inr files \<longrightarrow>
      dom (snd (LoadConfigs w cm path)) =
        dom cm \<union> Name ` set [c. file \<leftarrow> files, strings_Contains file ''.yaml'',
                                 Inr c \<leftarrow> [ReadConfig w (filepath_Join w path file)]]) \<and>
   dom (foldl (run_load w) cm ops) \<subseteq> dom cm \<union> Name ` set (concat (map (decoded w) ops))"
proof -
  have "{c. Some c \<in> set ccs} = set [c. Some c \<leftarrow> ccs]" for ccs :: "Config option list"
    by (auto split: option.splits)
  then have "(ReadConfig w fname = Inr c \<longrightarrow> LoadConfigFile w cm fname = (None, cm(Name c \<mapsto> c))) \<and>
   (ReadConfig w fname = Inr c \<and> Name c = [] \<longrightarrow> snd (LoadConfigFile w cm fname) [] = Some c) \<and>
   (ReadConfigFile w fname = Inr cf \<and> None \<notin> set (Configs cf) \<longrightarrow>
      fst (LoadConfig w cm fname) = None \<and>
      dom (snd (LoadConfig w cm fname)) = dom cm \<union> Name ` {c. Some c \<in> set (Configs cf)}) \<and>
   (ioutil_ReadDir w path = Inr files \<longrightarrow>
      dom (snd (LoadConfigs w cm path)) =
        dom cm \<union> Name ` set [c. file \<leftarrow> files, strings_Contains file ''.yaml'',
                                 Inr c \<leftarrow> [ReadConfig w (filepath_Join w path file)]])"
    by (auto simp: LoadConfigFile_def LoadConfig_def LoadConfig_loop_fold dom_foldl_insert
        LoadConfigs_def LoadConfigs_loop_fold simp del: set_concat)
  with run_loads_dom [of w cm ops] show ?thesis
    by blast
qed

theorem C5_store_keys_witness:
  "LoadConfigFile ex_world Map.empty ''/profiles/good.yaml'' = (None, [''gpt'' \<mapsto> ex_profile]) \<and>
   snd (LoadConfigFile ex_world ex_store ''/mixed/unnamed.yaml'') [] = Some ex_unnamed \<and>
   fst (LoadConfig ex_world Map.empty ''/models/gpt.yaml'') = None \<and>
   dom (snd (LoadConfig ex_world Map.empty ''/models/gpt.yaml'')) = {''gpt''} \<and>
   dom (snd (LoadConfigs ex_world Map.empty ''/mixed'')) = {[], ''gpt''} \<and>
   dom (foldl (run_load ex_world) Map.empty
          [LoadDirectory ''/profiles'', LoadOne ''/mixed/unnamed.yaml'']) \<subseteq> {[], ''gpt''}"
proof -
  have good: "ReadConfig ex_world ''/profiles/good.yaml'' = Inr ex_profile"
    and unnamed: "ReadConfig ex_world ''/mixed/unnamed.yaml'' = Inr ex_unnamed"
    and readme: "ReadConfig ex_world ''/mixed/good.yaml'' = Inr ex_profile"
    by (simp_all add: ReadConfig_def ex_world_def)
  have companion: "ReadConfigFile ex_world ''/models/gpt.yaml'' = Inr \<lparr>Configs = [Some ex_refreshed]\<rparr>"
    by (simp add: ReadConfigFile_def ex_world_def)
  have dir: "ioutil_ReadDir ex_world ''/mixed'' = Inr [''README.md'', ''unnamed.yaml'', ''good.yaml'']"
    by (simp add: ex_world_def)
  have names: "Name ex_profile = ''gpt''" "Name ex_unnamed = []" "Name ex_refreshed = ''gpt''"
    by (simp_all add: ex_simps world_simps)
  have join: "filepath_Join ex_world = (\<lambda>dir file. dir @ ''/'' @ file)"
    by (simp add: ex_world_def)
  from C5_store_keys [where w = ex_world and fname = "''/profiles/good.yaml''" and c = ex_profile
      and cm = Map.empty] good names
  have 1: "LoadConfigFile ex_world Map.empty ''/profiles/good.yaml'' = (None, [''gpt'' \<mapsto> ex_profile])"
    by simp
  from C5_store_keys [where w = ex_world and fname = "''/mixed/unnamed.yaml''" and c = ex_unnamed
      and cm = ex_store] unnamed names
  have 2: "snd (LoadConfigFile ex_world ex_store ''/mixed/unnamed.yaml'') [] = Some ex_unnamed"
    by simp
  from C5_store_keys [where w = ex_world and fname = "''/models/gpt.yaml''"
      and cf = "\<lparr>Configs = [Some ex_refreshed]\<rparr>" and cm = Map.empty] companion names
  have 3: "fst (LoadConfig ex_world Map.empty ''/models/gpt.yaml'') = None \<and>
      dom (snd (LoadConfig ex_world Map.empty ''/models/gpt.yaml'')) = {''gpt''}"
    by simp
  from C5_store_keys [where w = ex_world and path = "''/mixed''" and cm = Map.empty
      and files = "[''README.md'', ''unnamed.yaml'', ''good.yaml'']"] dir
  have 4: "dom (snd (LoadConfigs ex_world Map.empty ''/mixed'')) = {[], ''gpt''}"
    by (simp add: join unnamed readme names)
  have bad: "ReadConfig ex_world ''/profiles/bad.yaml'' =
      Inl (CannotUnmarshalConfigFile (External ''yaml: did not find expected node content''))"
    and good': "ReadConfig ex_world ''/profiles/good.yaml'' = Inr ex_profile"
    by (simp_all add: ReadConfig_def ex_world_def)
  have dir': "ioutil_ReadDir ex_world ''/profiles'' = Inr [''bad.yaml'', ''good.yaml'']"
    by (simp add: ex_world_def)
  from C5_store_keys [where w = ex_world and cm = Map.empty
      and ops = "[LoadDirectory ''/profiles'', LoadOne ''/mixed/unnamed.yaml'']",
      THEN conjunct2, THEN conjunct2, THEN conjunct2, THEN conjunct2]
  have 5: "dom (foldl (run_load ex_world) Map.empty
          [LoadDirectory ''/profiles'', LoadOne ''/mixed/unnamed.yaml'']) \<subseteq> {[], ''gpt''}"
    by (simp add: dir' join good' bad unnamed names insert_commute)
  from 1 2 3 4 5 show ?thesis by simp
qed

text \<open>
  Claim C5 as stated fails: loading a profile file that decodes to a record without a
  name succeeds and leaves that record in the store under the empty name.
\<close>

theorem C5_counterexample:
  "Name ex_unnamed = [] \<and>
   ReadConfig ex_world ''/mixed/unnamed.yaml'' = Inr ex_unnamed \<and>
   LoadConfigFile ex_world Map.empty ''/mixed/unnamed.yaml'' = (None, [[] \<mapsto> ex_unnamed])"
  by (simp add: LoadConfigFile_def ReadConfig_def ex_world_def ex_unnamed_def zero_Config_def)

section \<open>Configuration resolution\<close>

lemma LoadConfig_loop_nil:
  "None \<in> set ccs \<Longrightarrow>
   LoadConfig_loop cm ccs =
     (Some (Panic ''nil pointer dereference''), snd (LoadConfig_loop cm ccs))"
  by (induction cm ccs rule: LoadConfig_loop.induct) auto

lemma LoadConfig_cases:
  "LoadConfig w cm fname =
     (case ReadConfigFile w fname of
        Inl err \<Rightarrow> (Some (CannotReadConfigFile err), cm)
      | Inr cf \<Rightarrow>
          (if None \<in> set (Configs cf)
           then (Some (Panic ''nil pointer dereference''), snd (LoadConfig_loop cm (Configs cf)))
           else (None, foldl (\<lambda>m c. m(Name c \<mapsto> c)) cm [c. Some c \<leftarrow> Configs cf])))"
  by (auto simp: LoadConfig_def LoadConfig_loop_fold split: sum.splits
      intro: LoadConfig_loop_nil)

lemma load_companion_cases:
  "load_companion w loader cm modelFile =
     (let modelConfig = filepath_Join w (ModelPath loader) (modelFile @ ''.yaml'')
      in if os_Stat w modelConfig
         then (case ReadConfigFile w modelConfig of
                 Inl err \<Rightarrow> (Some (FailedLoadingModelConfig (CannotReadConfigFile err)), cm)
               | Inr cf \<Rightarrow>
                   (if None \<in> set (Configs cf)
                    then (Some (Panic ''nil pointer dereference''),
                          snd (LoadConfig_loop cm (Configs cf)))
                    else (None, foldl (\<lambda>m c. m(Name c \<mapsto> c)) cm [c. Some c \<leftarrow> Configs cf])))
         else (None, cm))"
  by (simp add: load_companion_def Let_def LoadConfig_cases split: sum.splits)

text \<open>
  Claim C4, as amended. Once the model identifier is determined, configuration
  resolution returns the resolved configuration when the model has no companion file
  (the store is left as it was) and when the companion file reads and decodes (the
  store then holds the file's profiles); when the companion file exists and cannot be
  read or decoded, it returns the error "failed loading model config" and leaves the
  store as it was.
\<close>

theorem C4_resolution_errors:
  "select_model loader authorization input = Inr modelFile \<longrightarrow>
     (let modelConfig = filepath_Join w (ModelPath loader) (modelFile @ ''.yaml'');
          r = config_resolver w cm loader threads ctx half authorization input
      in (\<not> os_Stat w modelConfig \<longrightarrow>
            r = (Inr (resolved_config cm modelFile input threads ctx half), cm)) \<and>
         (os_Stat w modelConfig \<and> ReadConfigFile w modelConfig = Inl err \<longrightarrow>
            r = (Inl (FailedLoadingModelConfig (CannotReadConfigFile err)), cm)) \<and>
         (os_Stat w modelConfig \<and> ReadConfigFile w modelConfig = Inr cf \<and>
          None \<notin> set (Configs cf) \<longrightarrow>
            (let cm' = foldl (\<lambda>m c. m(Name c \<mapsto> c)) cm [c. Some c \<leftarrow> Configs cf]
             in r = (Inr (resolved_config cm' modelFile input threads ctx half), cm'))))"
  by (simp add: config_resolver_def load_companion_cases Let_def)


theorem C4_resolution_errors_witness:
  "config_resolver ex_world ex_store ex_loader 0 0 False [] ex_vicuna_request =
     (Inr (resolved_config ex_store ''vicuna.bin'' ex_vicuna_request 0 0 False), ex_store) \<and>
   config_resolver ex_world ex_store ex_loader 0 0 False [] ex_locked_request =
     (Inl (FailedLoadingModelConfig (CannotReadConfigFile (CannotReadConfigFile
        (External ''cannot read'')))), ex_store) \<and>
   config_resolver ex_world ex_store ex_loader 0 0 False [] ex_overrides =
     (Inr (resolved_config [''gpt'' \<mapsto> ex_refreshed] ''gpt'' ex_overrides 0 0 False),
      [''gpt'' \<mapsto> ex_refreshed])"
proof -
  have sel: "select_model ex_loader [] ex_vicuna_request = Inr ''vicuna.bin''"
    "select_model ex_loader [] ex_locked_request = Inr ''locked''"
    "select_model ex_loader [] ex_overrides = Inr ''gpt''"
    by (simp_all add: select_model_def Let_def strings_TrimLeft_def ex_vicuna_request_def
        ex_locked_request_def ex_overrides_def zero_OpenAIRequest_def)
  have path: "filepath_Join ex_world dir f = dir @ ''/'' @ f" "ModelPath ex_loader = ''/models''"
    for dir f by (simp_all add: ex_world_def ex_loader_def)
  have stat: "\<not> os_Stat ex_world ''/models/vicuna.bin.yaml''"
    "os_Stat ex_world ''/models/locked.yaml''" "os_Stat ex_world ''/models/gpt.yaml''"
    by (simp_all add: ex_world_def)
  have rd: "ReadConfigFile ex_world ''/models/locked.yaml'' =
      Inl (CannotReadConfigFile (External ''cannot read''))"
    "ReadConfigFile ex_world ''/models/gpt.yaml'' = Inr \<lparr>Configs = [Some ex_refreshed]\<rparr>"
    by (simp_all add: ReadConfigFile_def ex_world_def)
  have name: "Name ex_refreshed = ''gpt''"
    by (simp add: ex_simps world_simps)
  from C4_resolution_errors [where loader = ex_loader and authorization = "[]"
      and input = ex_vicuna_request and modelFile = "''vicuna.bin''" and w = ex_world
      and cm = ex_store and threads = 0 and ctx = 0 and half = False] sel path stat
  have 1: "config_resolver ex_world ex_store ex_loader 0 0 False [] ex_vicuna_request =
     (Inr (resolved_config ex_store ''vicuna.bin'' ex_vicuna_request 0 0 False), ex_store)"
    by (simp add: Let_def)
  from C4_resolution_errors [where loader = ex_loader and authorization = "[]"
      and input = ex_locked_request and modelFile = "''locked''" and w = ex_world
      and cm = ex_store and threads = 0 and ctx = 0 and half = False
      and err = "CannotReadConfigFile (External ''cannot read'')"] sel path stat rd
  have 2: "config_resolver ex_world ex_store ex_loader 0 0 False [] ex_locked_request =
     (Inl (FailedLoadingModelConfig (CannotReadConfigFile (CannotReadConfigFile
        (External ''cannot read'')))), ex_store)"
    by (simp add: Let_def)
  from C4_resolution_errors [where loader = ex_loader and authorization = "[]"
      and input = ex_overrides and modelFile = "''gpt''" and w = ex_world
      and cm = ex_store and threads = 0 and ctx = 0 and half = False
      and cf = "\<lparr>Configs = [Some ex_refreshed]\<rparr>"] sel path stat rd
  have 3: "config_resolver ex_world ex_store ex_loader 0 0 False [] ex_overrides =
     (Inr (resolved_config [''gpt'' \<mapsto> ex_refreshed] ''gpt'' ex_overrides 0 0 False),
      [''gpt'' \<mapsto> ex_refreshed])"
    by (simp add: Let_def name ex_store_def)
  from 1 2 3 show ?thesis by simp
qed

text \<open>
  Claim C4 as stated fails: for the model \<open>locked\<close>, whose companion file exists and
  cannot be read, the model identifier is determined and the request fails with an
  error that is not the "no model specified" error.
\<close>

theorem C4_counterexample:
  "select_model ex_loader [] ex_locked_request = Inr ''locked'' \<and>
   outcome (openAIEndpoint ex_world ex_inference ex_store False False ex_loader 0 0 False
              Map.empty [] (Inr ex_locked_request)) =
     Inl (FailedLoadingModelConfig (CannotReadConfigFile (CannotReadConfigFile
        (External ''cannot read''))))"
  by (simp add: openAIEndpoint_def config_resolver_def select_model_def load_companion_def
      LoadConfig_def ReadConfigFile_def Let_def strings_TrimLeft_def ex_locked_request_def
      zero_OpenAIRequest_def ex_world_def ex_loader_def)

section \<open>Facts about the scenarios\<close>

lemma ex_selected:
  "select_model ex_loader [] ex_vicuna_request = Inr ''vicuna.bin''"
  "select_model ex_loader [] ex_locked_request = Inr ''locked''"
  "select_model ex_loader [] ex_overrides = Inr ''gpt''"
  "select_model empty_loader [] zero_OpenAIRequest = Inl NoModelSpecified"
  by (simp_all add: select_model_def Let_def strings_TrimLeft_def ex_vicuna_request_def
      ex_locked_request_def ex_overrides_def zero_OpenAIRequest_def ex_loader_def
      empty_loader_def)

lemma ex_paths:
  "filepath_Join ex_world dir f = dir @ ''/'' @ f"
  "filepath_Join bare_world dir f = dir @ ''/'' @ f"
  "ModelPath ex_loader = ''/models''"
  "os_Stat ex_world f = (f = ''/models/gpt.yaml'' \<or> f = ''/models/locked.yaml'')"
  "os_Stat bare_world f = False"
  by (simp_all add: ex_world_def bare_world_def ex_loader_def)

section \<open>Templates\<close>

text \<open>
  Claim C9. In chat mode the chat template name of the resolved configuration is the
  template name when it is not empty, in completion mode the completion template name
  when it is not empty, and otherwise the model field of the resolved configuration
  is. When the loader expands the template, the expansion is the input of inference;
  when it returns an error, the input built from the request is, and the handler goes
  on to inference and the response with it: the error of the template is returned
  nowhere.
\<close>

theorem C9_template_fallback:
  "(chat \<and> Chat (TemplateConfig config) \<noteq> [] \<longrightarrow>
      templateFile_of chat config = Chat (TemplateConfig config)) \<and>
   (\<not> chat \<and> Completion (TemplateConfig config) \<noteq> [] \<longrightarrow>
      templateFile_of chat config = Completion (TemplateConfig config)) \<and>
   (chat \<and> Chat (TemplateConfig config) = [] \<longrightarrow>
      templateFile_of chat config = Model (Request config)) \<and>
   (\<not> chat \<and> Completion (TemplateConfig config) = [] \<longrightarrow>
      templateFile_of chat config = Model (Request config)) \<and>
   (TemplatePrefix loader (templateFile_of chat config) predInput = Inr templatedInput \<longrightarrow>
      apply_template loader chat config predInput = templatedInput) \<and>
   (TemplatePrefix loader (templateFile_of chat config) predInput = Inl err \<longrightarrow>
      apply_template loader chat config predInput = predInput) \<and>
   (config_resolver w cm loader threads ctx half authorization input = (Inr config, cm') \<and>
    TemplatePrefix loader (templateFile_of chat config) (build_predInput chat config input) =
      Inl err \<longrightarrow>
      openAIEndpoint w inference cm chat debug loader threads ctx half cache authorization
          (Inr input) =
        infer_and_respond w inference cm' chat loader config
          (build_predInput chat config input) input cache)"
  by (simp add: templateFile_of_def apply_template_def openAIEndpoint_def Let_def)


theorem C9_template_fallback_witness:
  "templateFile_of True ex_templated = ''chat-tmpl'' \<and>
   templateFile_of False ex_templated = ''comp-tmpl'' \<and>
   templateFile_of True ex_profile = ''ggml.bin'' \<and>
   templateFile_of False ex_profile = ''ggml.bin'' \<and>
   apply_template ex_loader True ex_templated ''Hello'' = ''### Hello'' \<and>
   apply_template ex_loader False ex_templated ''Hello'' = ''Hello'' \<and>
   outcome (openAIEndpoint ex_world ex_inference ex_store False False ex_loader 0 0 False
              Map.empty [] (Inr ex_vicuna_request)) =
     Inr \<lparr>Created = 0, Object = [], ID = [], Response_Model = ''vicuna.bin'',
          Choices = [\<lparr>Index = 0, FinishReason = [], Choice_Message = None,
                      Text = ''Hello world''\<rparr>]\<rparr>"
proof -
  have t: "TemplateConfig ex_templated = \<lparr>Completion = ''comp-tmpl'', Chat = ''chat-tmpl''\<rparr>"
    "TemplateConfig ex_profile = \<lparr>Completion = [], Chat = []\<rparr>"
    "Model (Request ex_templated) = ''ggml.bin''" "Model (Request ex_profile) = ''ggml.bin''"
    by (simp_all add: ex_templated_def ex_simps)
  have tp: "TemplatePrefix ex_loader name x =
      (if name = ''chat-tmpl'' then Inr (''### '' @ x) else Inl (External ''template not found''))"
    for name x by (simp add: ex_loader_def)
  from C9_template_fallback [where chat = True and config = ex_templated and loader = ex_loader
      and predInput = "''Hello''" and templatedInput = "''### Hello''"] t tp
  have 1: "templateFile_of True ex_templated = ''chat-tmpl'' \<and>
      apply_template ex_loader True ex_templated ''Hello'' = ''### Hello''"
    by simp
  from C9_template_fallback [where chat = False and config = ex_templated and loader = ex_loader
      and predInput = "''Hello''" and err = "External ''template not found''"] t tp
  have 2: "templateFile_of False ex_templated = ''comp-tmpl'' \<and>
      apply_template ex_loader False ex_templated ''Hello'' = ''Hello''"
    by simp
  from C9_template_fallback [where chat = True and config = ex_profile] t
  have 3: "templateFile_of True ex_profile = ''ggml.bin''" by simp
  from C9_template_fallback [where chat = False and config = ex_profile] t
  have 4: "templateFile_of False ex_profile = ''ggml.bin''" by simp
  define config where "config = resolved_config ex_store ''vicuna.bin'' ex_vicuna_request 0 0 False"
  have cfg: "Model (Request config) = ''vicuna.bin''" "TemplateConfig config = \<lparr>Completion = [], Chat = []\<rparr>"
    "Echo (Request config) = False" "Cutstrings config = []" "TrimSpace config = []"
    by (simp_all add: config_def resolved_simps ex_simps ex_vicuna_request_def)
  have res: "config_resolver ex_world ex_store ex_loader 0 0 False [] ex_vicuna_request =
      (Inr config, ex_store)"
    by (simp add: config_resolver_def ex_selected load_companion_def Let_def ex_paths config_def)
  have inp: "build_predInput False config ex_vicuna_request = ''Hello''"
    by (simp add: build_predInput_def ex_vicuna_request_def)
  from C9_template_fallback [where chat = False and config = config and loader = ex_loader
      and w = ex_world and cm = ex_store and threads = 0 and ctx = 0 and half = False
      and authorization = "[]" and input = ex_vicuna_request and cm' = ex_store
      and err = "External ''template not found''" and inference = ex_inference
      and debug = False and cache = Map.empty] res inp cfg tp
  have "openAIEndpoint ex_world ex_inference ex_store False False ex_loader 0 0 False
          Map.empty [] (Inr ex_vicuna_request) =
        infer_and_respond ex_world ex_inference ex_store False ex_loader config ''Hello''
          ex_vicuna_request Map.empty"
    by simp
  then have 5: "outcome (openAIEndpoint ex_world ex_inference ex_store False False ex_loader 0 0
        False Map.empty [] (Inr ex_vicuna_request)) =
     Inr \<lparr>Created = 0, Object = [], ID = [], Response_Model = ''vicuna.bin'',
          Choices = [\<lparr>Index = 0, FinishReason = [], Choice_Message = None,
                      Text = ''Hello world''\<rparr>]\<rparr>"
    by (simp add: infer_and_respond_def respond_def sample_count_def ex_inference_def
        sample_loop.simps postprocess_def cfg make_choice_def ex_vicuna_request_def
        zero_OpenAIRequest_def)
  from 1 2 3 4 5 show ?thesis by simp
qed

section \<open>The store during a request\<close>

lemma store_after_respond [simp]:
  "store_after (respond w cm chat config predInput predFunc n input cache) = cm"
  by (simp add: respond_def split: prod.splits sum.splits)

lemma store_after_infer_and_respond [simp]:
  "store_after (infer_and_respond w inference cm chat loader config predInput input cache) = cm"
  by (simp add: infer_and_respond_def Let_def split: sum.splits)

lemma store_after_openAIEndpoint:
  "store_after (openAIEndpoint w inference cm chat debug loader threads ctx half cache
       authorization body) =
     (case body of
        Inl err \<Rightarrow> cm
      | Inr input \<Rightarrow>
          (case select_model loader authorization input of
             Inl err \<Rightarrow> cm
           | Inr modelFile \<Rightarrow> snd (load_companion w loader cm modelFile)))"
  by (simp add: openAIEndpoint_def config_resolver_def
      split: sum.splits prod.splits option.splits)


lemma snd_load_companion:
  "snd (load_companion w loader cm modelFile) =
     (if os_Stat w (filepath_Join w (ModelPath loader) (modelFile @ ''.yaml''))
      then snd (LoadConfig w cm (filepath_Join w (ModelPath loader) (modelFile @ ''.yaml'')))
      else cm)"
proof (cases "LoadConfig w cm (filepath_Join w (ModelPath loader) (modelFile @ ''.yaml''))")
  case (Pair r cm')
  then show ?thesis
    by (cases r; cases "the r") (simp_all add: load_companion_def Let_def)
qed

lemma LoadConfig_other:
  "ReadConfigFile w fname = Inr cf \<Longrightarrow> name \<notin> Name ` {c. Some c \<in> set (Configs cf)} \<Longrightarrow>
   snd (LoadConfig w cm fname) name = cm name"
  by (simp add: LoadConfig_def LoadConfig_loop_other)

lemma LoadConfig_unread:
  "ReadConfigFile w fname = Inl e \<Longrightarrow> snd (LoadConfig w cm fname) = cm"
  by (simp add: LoadConfig_def)

lemma append_elems:
  assumes "len s \<le> cap s" and "cap s \<le> length (h (array s))"
    and "go_append fresh newcap h s v = (h', s')"
  shows "elems h' s' = elems h s @ [v]"
  using assms
  by (auto simp: go_append_def elems_def take_Suc_conv_app_nth split: if_splits)

lemma append_frame:
  assumes "go_append fresh newcap h s v = (h', s')"
    and "array t \<noteq> fresh" and "array t = array s \<longrightarrow> len t \<le> len s"
  shows "elems h' t = elems h t"
  using assms
  by (auto simp: go_append_def elems_def split: if_splits)

text \<open>
  Claim C10. The store a request leaves behind is the store the companion-file load
  leaves behind: the overrides and the server's values are merged into a copy of the
  entry and never written to the store. So the store is unchanged when no model
  identifier is found, when the model has no companion file, and when the companion
  file cannot be read or decoded; and when it is decoded, every entry whose name is
  not the name of a profile in the companion file is unchanged. The copy shares the
  array of its stop words with the stored entry: when the stored view \<open>s\<close> shows the
  stop words of the starting profile, the view the append returns shows the stop words
  of the resolved configuration, and \<open>s\<close> still shows what it showed.
\<close>

theorem C10_store_frame:
  "(let h = openAIEndpoint w inference cm chat debug loader threads ctx half cache
              authorization (Inr input);
        modelConfig = filepath_Join w (ModelPath loader) (modelFile @ ''.yaml'')
    in (select_model loader authorization input = Inl err \<longrightarrow> store_after h = cm) \<and>
       (select_model loader authorization input = Inr modelFile \<longrightarrow>
          store_after h = snd (load_companion w loader cm modelFile) \<and>
          (\<not> os_Stat w modelConfig \<longrightarrow> store_after h = cm) \<and>
          (ReadConfigFile w modelConfig = Inl e \<longrightarrow> store_after h = cm) \<and>
          (ReadConfigFile w modelConfig = Inr cf \<and>
           name \<notin> Name ` {c. Some c \<in> set (Configs cf)} \<longrightarrow> store_after h name = cm name))) \<and>
   (len s \<le> cap s \<and> cap s \<le> length (arrs (array s)) \<and> array s \<noteq> fresh \<and>
    StopWords (starting_config cm modelFile) = elems arrs s \<and>
    append_StopWords fresh newcap arrs s input = (arrs', s') \<longrightarrow>
      StopWords (resolved_config cm modelFile input threads ctx half) = elems arrs' s' \<and>
      elems arrs' s = elems arrs s)"
proof (intro conjI impI, goal_cases)
  case 1
  show ?case
    by (simp add: Let_def store_after_openAIEndpoint snd_load_companion LoadConfig_other
        LoadConfig_unread)
next
  case 2
  then show ?case
    using append_elems [of s arrs fresh newcap "Stop input" arrs' s']
    by (auto simp: resolved_simps append_StopWords_def split: if_splits)
next
  case 3
  then show ?case
    using append_frame [of fresh newcap arrs s "Stop input" arrs' s' s]
    by (auto simp: append_StopWords_def split: if_splits)
qed

theorem C10_store_frame_witness:
  "TopK (Request (resolved_config ex_store ''gpt'' ex_overrides 0 0 False)) = 5 \<and>
   TopK (Request ex_profile) = 40 \<and>
   store_after (openAIEndpoint bare_world ex_inference ex_store False False ex_loader 0 0 False
      Map.empty [] (Inr ex_overrides)) = ex_store \<and>
   store_after (openAIEndpoint ex_world ex_inference ex_store False False ex_loader 0 0 False
      Map.empty [] (Inr ex_overrides)) ''other'' = None \<and>
   store_after (openAIEndpoint ex_world ex_inference ex_store False False ex_loader 0 0 False
      Map.empty [] (Inr ex_locked_request)) = ex_store \<and>
   store_after (openAIEndpoint ex_world ex_inference ex_store False False empty_loader 0 0 False
      Map.empty [] (Inr zero_OpenAIRequest)) = ex_store \<and>
   elems ex_arrays ex_slice = [''###''] \<and>
   append_StopWords 1 4 ex_arrays ex_slice ex_overrides =
     (ex_arrays(0 := [''###'', ''END'']), \<lparr>array = 0, len = 2, cap = 2\<rparr>) \<and>
   StopWords (resolved_config ex_store ''gpt'' ex_overrides 0 0 False) =
     elems (ex_arrays(0 := [''###'', ''END''])) \<lparr>array = 0, len = 2, cap = 2\<rparr> \<and>
   elems (ex_arrays(0 := [''###'', ''END''])) ex_slice = [''###'']"
proof -
  have rd: "ReadConfigFile ex_world ''/models/locked.yaml'' =
      Inl (CannotReadConfigFile (External ''cannot read''))"
    "ReadConfigFile ex_world ''/models/gpt.yaml'' = Inr \<lparr>Configs = [Some ex_refreshed]\<rparr>"
    by (simp_all add: ReadConfigFile_def ex_world_def)
  have name: "Name ex_refreshed = ''gpt''" "ex_store ''other'' = None"
    by (simp_all add: ex_simps world_simps)
  have bare: "ModelPath ex_loader = ''/models''"
    by (simp add: ex_loader_def)
  from C10_store_frame [where w = bare_world and inference = ex_inference and cm = ex_store
      and chat = False and debug = False and loader = ex_loader and threads = 0 and ctx = 0
      and half = False and cache = Map.empty and authorization = "[]" and input = ex_overrides
      and modelFile = "''gpt''" and e = NoModelSpecified and cf = "\<lparr>Configs = []\<rparr>"
      and name = "[]" and err = NoModelSpecified, THEN conjunct1] ex_selected ex_paths
  have 1: "store_after (openAIEndpoint bare_world ex_inference ex_store False False ex_loader 0 0
      False Map.empty [] (Inr ex_overrides)) = ex_store"
    by (auto simp: Let_def)
  from C10_store_frame [where w = ex_world and inference = ex_inference and cm = ex_store
      and chat = False and debug = False and loader = ex_loader and threads = 0 and ctx = 0
      and half = False and cache = Map.empty and authorization = "[]" and input = ex_overrides
      and modelFile = "''gpt''" and cf = "\<lparr>Configs = [Some ex_refreshed]\<rparr>"
      and name = "''other''" and e = NoModelSpecified and err = NoModelSpecified,
      THEN conjunct1] ex_selected ex_paths rd name
  have 2: "store_after (openAIEndpoint ex_world ex_inference ex_store False False ex_loader 0 0
      False Map.empty [] (Inr ex_overrides)) ''other'' = None"
    by (auto simp: Let_def)
  from C10_store_frame [where w = ex_world and inference = ex_inference and cm = ex_store
      and chat = False and debug = False and loader = ex_loader and threads = 0 and ctx = 0
      and half = False and cache = Map.empty and authorization = "[]"
      and input = ex_locked_request and modelFile = "''locked''"
      and e = "CannotReadConfigFile (External ''cannot read'')" and err = NoModelSpecified
      and cf = "\<lparr>Configs = []\<rparr>" and name = "[]", THEN conjunct1] ex_selected ex_paths rd
  have 3: "store_after (openAIEndpoint ex_world ex_inference ex_store False False ex_loader 0 0
      False Map.empty [] (Inr ex_locked_request)) = ex_store"
    by (auto simp: Let_def)
  from C10_store_frame [where w = ex_world and inference = ex_inference and cm = ex_store
      and chat = False and debug = False and loader = empty_loader and threads = 0 and ctx = 0
      and half = False and cache = Map.empty and authorization = "[]"
      and input = zero_OpenAIRequest and err = NoModelSpecified and e = NoModelSpecified
      and cf = "\<lparr>Configs = []\<rparr>" and name = "[]" and modelFile = "[]",
      THEN conjunct1] ex_selected
  have 4: "store_after (openAIEndpoint ex_world ex_inference ex_store False False empty_loader 0 0
      False Map.empty [] (Inr zero_OpenAIRequest)) = ex_store"
    by (auto simp: Let_def)
  have 5: "TopK (Request (resolved_config ex_store ''gpt'' ex_overrides 0 0 False)) = 5"
    "TopK (Request ex_profile) = 40"
    by (simp_all add: resolved_simps ex_simps)
  have view: "elems ex_arrays ex_slice = [''###'']"
    "StopWords (starting_config ex_store ''gpt'') = [''###'']"
    by (simp_all add: elems_def ex_arrays_def ex_slice_def ex_simps)
  have app: "append_StopWords 1 4 ex_arrays ex_slice ex_overrides =
     (ex_arrays(0 := [''###'', ''END'']), \<lparr>array = 0, len = 2, cap = 2\<rparr>)"
    by (simp add: append_StopWords_def go_append_def ex_arrays_def ex_slice_def
        ex_overrides_def)
  have wf: "len ex_slice \<le> cap ex_slice" "cap ex_slice \<le> length (ex_arrays (array ex_slice))"
    "array ex_slice \<noteq> 1"
    by (simp_all add: ex_arrays_def ex_slice_def)
  from C10_store_frame [where cm = ex_store and modelFile = "''gpt''" and input = ex_overrides
      and threads = 0 and ctx = 0 and half = False and s = ex_slice and arrs = ex_arrays
      and fresh = 1 and newcap = 4 and arrs' = "ex_arrays(0 := [''###'', ''END''])"
      and s' = "\<lparr>array = 0, len = 2, cap = 2\<rparr>", THEN conjunct2] view app wf
  have 6: "StopWords (resolved_config ex_store ''gpt'' ex_overrides 0 0 False) =
      elems (ex_arrays(0 := [''###'', ''END''])) \<lparr>array = 0, len = 2, cap = 2\<rparr> \<and>
    elems (ex_arrays(0 := [''###'', ''END''])) ex_slice = [''###'']"
    by simp
  from 1 2 3 4 5 6 view app show ?thesis by simp
qed

section \<open>Post-processing\<close>

lemma cache_ok_empty: "cache_ok w Map.empty"
  by (simp add: cache_ok_def)

lemma cache_ok_update:
  "cache_ok w cache \<Longrightarrow> regexp_MustCompile w c = Some reg \<Longrightarrow> cache_ok w (cache(c \<mapsto> reg))"
  by (simp add: cache_ok_def)

lemma cut_loop_cache_ok:
  "cache_ok w cache \<Longrightarrow> cache_ok w (snd (cut_loop w cs cache p))"
proof (induction cs arbitrary: cache p)
  case Nil
  then show ?case by simp
next
  case (Cons c cs)
  show ?case
  proof (cases "cache c")
    case (Some reg)
    with Cons show ?thesis by simp
  next
    case None
    show ?thesis
    proof (cases "regexp_MustCompile w c")
      case None
      with \<open>cache c = None\<close> Cons.prems show ?thesis by simp
    next
      case (Some reg)
      with Cons.prems have "cache_ok w (cache(c \<mapsto> reg))"
        by (rule cache_ok_update)
      then have "cache_ok w (snd (cut_loop w cs (cache(c \<mapsto> reg)) (reg p)))"
        by (rule Cons.IH)
      with \<open>cache c = None\<close> Some show ?thesis by simp
    qed
  qed
qed

lemma cut_loop_fold:
  "cache_ok w cache \<Longrightarrow> map (regexp_MustCompile w) cs = map Some regs \<Longrightarrow>
   fst (cut_loop w cs cache p) = Inr (fold (\<lambda>reg. reg) regs p)"
proof (induction cs arbitrary: cache p regs)
  case Nil
  then show ?case by simp
next
  case (Cons c cs)
  from Cons.prems(2) obtain reg regs' where regs: "regs = reg # regs'"
    and reg: "regexp_MustCompile w c = Some reg"
    and rest: "map (regexp_MustCompile w) cs = map Some regs'"
    by (cases regs) auto
  show ?case
  proof (cases "cache c")
    case None
    from Cons.prems(1) reg have "cache_ok w (cache(c \<mapsto> reg))"
      by (rule cache_ok_update)
    then have "fst (cut_loop w cs (cache(c \<mapsto> reg)) (reg p)) =
        Inr (fold (\<lambda>reg. reg) regs' (reg p))"
      using rest by (rule Cons.IH)
    with None reg regs show ?thesis by simp
  next
    case (Some reg')
    with Cons.prems(1) reg have "reg' = reg"
      by (simp add: cache_ok_def)
    have "fst (cut_loop w cs cache (reg p)) = Inr (fold (\<lambda>reg. reg) regs' (reg p))"
      using Cons.prems(1) rest by (rule Cons.IH)
    with Some \<open>reg' = reg\<close> regs show ?thesis by simp
  qed
qed

lemma postprocess_ok:
  assumes "cache_ok w cache" and "map (regexp_MustCompile w) (Cutstrings config) = map Some regs"
  shows "fst (postprocess w config predInput cache prediction) =
           Inr (cleaned config regs predInput prediction)"
    and "cache_ok w (snd (postprocess w config predInput cache prediction))"
proof -
  let ?p = "if Echo (Request config) then predInput @ prediction else prediction"
  obtain r cache' where cut: "cut_loop w (Cutstrings config) cache ?p = (r, cache')"
    by (cases "cut_loop w (Cutstrings config) cache ?p")
  from cut_loop_fold [OF assms, of ?p] cut have r: "r = Inr (fold (\<lambda>reg. reg) regs ?p)"
    by simp
  from cut_loop_cache_ok [OF assms(1), of "Cutstrings config" ?p] cut have "cache_ok w cache'"
    by simp
  with cut r show "fst (postprocess w config predInput cache prediction) =
           Inr (cleaned config regs predInput prediction)"
    and "cache_ok w (snd (postprocess w config predInput cache prediction))"
    by (simp_all add: postprocess_def cleaned_def Let_def)
qed

lemma postprocess_cache_ok:
  assumes "cache_ok w cache"
  shows "cache_ok w (snd (postprocess w config predInput cache prediction))"
proof -
  let ?p = "if Echo (Request config) then predInput @ prediction else prediction"
  obtain r cache' where cut: "cut_loop w (Cutstrings config) cache ?p = (r, cache')"
    by (cases "cut_loop w (Cutstrings config) cache ?p")
  from cut_loop_cache_ok [OF assms, of "Cutstrings config" ?p] cut have "cache_ok w cache'"
    by simp
  with cut show ?thesis
    by (cases r) (simp_all add: postprocess_def Let_def)
qed


lemma postprocess_echo:
  assumes "Echo (Request config)"
  shows "postprocess w config predInput cache prediction =
         postprocess w (config\<lparr>Request := (Request config)\<lparr>Echo := False\<rparr>\<rparr>) predInput cache
           (predInput @ prediction)"
proof -
  obtain r cache' where "cut_loop w (Cutstrings config) cache (predInput @ prediction) = (r, cache')"
    by (cases "cut_loop w (Cutstrings config) cache (predInput @ prediction)")
  with assms show ?thesis
    by (cases r) (simp_all add: postprocess_def)
qed

text \<open>
  Claim C6. With echo set, post-processing a prediction is post-processing, without
  echo, the input text followed by the prediction: the input is prepended before any
  cut-string or trim is applied. So, when the patterns compile, every expression is
  applied to the text that starts with the echoed input, and its matches there are
  removed like those in the prediction. With input \<open>Hello\<close>, the pattern \<open>Hello\<close> and
  the prediction \<open>Hello world\<close> the result is \<open> world\<close> (and \<open>world\<close> with a trim
  entry): both occurrences are removed.
\<close>

theorem C6_echo_before_cleanup:
  "(Echo (Request config) \<longrightarrow>
      postprocess w config predInput cache prediction =
        postprocess w (config\<lparr>Request := (Request config)\<lparr>Echo := False\<rparr>\<rparr>) predInput cache
          (predInput @ prediction)) \<and>
   (Echo (Request config) \<and> cache_ok w cache \<and>
    map (regexp_MustCompile w) (Cutstrings config) = map Some regs \<longrightarrow>
      fst (postprocess w config predInput cache prediction) =
        Inr (trim_loop (TrimSpace config) (fold (\<lambda>reg. reg) regs (predInput @ prediction))))"
proof (intro conjI impI)
  assume "Echo (Request config)"
  then show "postprocess w config predInput cache prediction =
        postprocess w (config\<lparr>Request := (Request config)\<lparr>Echo := False\<rparr>\<rparr>) predInput cache
          (predInput @ prediction)"
    by (rule postprocess_echo)
next
  assume "Echo (Request config) \<and> cache_ok w cache \<and>
    map (regexp_MustCompile w) (Cutstrings config) = map Some regs"
  then show "fst (postprocess w config predInput cache prediction) =
        Inr (trim_loop (TrimSpace config) (fold (\<lambda>reg. reg) regs (predInput @ prediction)))"
    using postprocess_ok(1) [of w cache config regs predInput prediction]
    by (simp add: cleaned_def)
qed

theorem C6_echo_before_cleanup_witness:
  "fst (postprocess ex_world ex_echo ''Hello'' Map.empty ''Hello world'') = Inr '' world'' \<and>
   fst (postprocess ex_world ex_echo_trim ''Hello'' Map.empty ''Hello world'') = Inr ''world'' \<and>
   postprocess ex_world ex_echo ''Hello'' Map.empty ''Hello world'' =
     postprocess ex_world (ex_echo\<lparr>Request := (Request ex_echo)\<lparr>Echo := False\<rparr>\<rparr>) ''Hello''
       Map.empty ''HelloHello world''"
proof -
  have cfg: "Echo (Request ex_echo)" "Cutstrings ex_echo = [''Hello'']" "TrimSpace ex_echo = []"
    "Echo (Request ex_echo_trim)" "Cutstrings ex_echo_trim = [''Hello'']"
    "TrimSpace ex_echo_trim = [[]]"
    by (simp_all add: ex_echo_def ex_echo_trim_def ex_simps)
  have re: "map (regexp_MustCompile ex_world) [''Hello''] = map Some [remove_literal ''Hello'' 0]"
    by (simp add: ex_world_def)
  have cut: "remove_literal ''Hello'' 0 ''HelloHello world'' = '' world''"
    by simp
  have trim: "strings_TrimSpace '' world'' = ''world''"
    by (simp add: strings_TrimSpace_def strip_runes.simps space_runes_def)
  from C6_echo_before_cleanup [where config = ex_echo and w = ex_world and cache = Map.empty
      and predInput = "''Hello''" and prediction = "''Hello world''"
      and regs = "[remove_literal ''Hello'' 0]", THEN conjunct2]
    cfg re cut cache_ok_empty [of ex_world]
  have 1: "fst (postprocess ex_world ex_echo ''Hello'' Map.empty ''Hello world'') = Inr '' world''"
    by simp
  from C6_echo_before_cleanup [where config = ex_echo_trim and w = ex_world and cache = Map.empty
      and predInput = "''Hello''" and prediction = "''Hello world''"
      and regs = "[remove_literal ''Hello'' 0]", THEN conjunct2]
    cfg re cut cache_ok_empty [of ex_world] trim
  have 2: "fst (postprocess ex_world ex_echo_trim ''Hello'' Map.empty ''Hello world'') = Inr ''world''"
    by (simp add: strings_TrimPrefix_def)
  from C6_echo_before_cleanup [where config = ex_echo and w = ex_world and cache = Map.empty
      and predInput = "''Hello''" and prediction = "''Hello world''", THEN conjunct1] cfg
  have 3: "postprocess ex_world ex_echo ''Hello'' Map.empty ''Hello world'' =
     postprocess ex_world (ex_echo\<lparr>Request := (Request ex_echo)\<lparr>Echo := False\<rparr>\<rparr>) ''Hello''
       Map.empty ''HelloHello world''"
    by simp
  from 1 2 3 show ?thesis by blast
qed

section \<open>Sampling\<close>

lemma sample_loop_ok:
  assumes ok: "cache_ok w cache"
    and regs: "map (regexp_MustCompile w) (Cutstrings config) = map Some regs"
    and len: "length samples = nat (n - i)"
    and succ: "\<forall>j<length samples. predFunc (k + j) = Inr (samples ! j)"
  shows "\<exists>cache'. sample_loop w chat config predInput predFunc n i cache k result =
           (Inr (result @ map (\<lambda>s. make_choice chat (cleaned config regs predInput s)) samples),
            cache', k + length samples) \<and> cache_ok w cache'"
  using ok len succ
proof (induction samples arbitrary: i cache k result)
  case Nil
  then have "\<not> i < n" by simp
  with Nil.prems(1) show ?case
    by (subst sample_loop.simps) simp
next
  case (Cons s ss)
  from Cons.prems(2) have lt: "i < n" and len': "length ss = nat (n - (i + 1))"
    by auto
  from Cons.prems(3) have first: "predFunc k = Inr s"
    and rest: "\<forall>j<length ss. predFunc (Suc k + j) = Inr (ss ! j)"
    by (auto dest: spec [of _ 0])
  obtain r cache1 where pp: "postprocess w config predInput cache s = (r, cache1)"
    by (cases "postprocess w config predInput cache s")
  with postprocess_ok [OF Cons.prems(1) regs, of predInput s]
  have r: "r = Inr (cleaned config regs predInput s)" and ok1: "cache_ok w cache1"
    by simp_all
  from Cons.IH [OF ok1 len' rest, of "result @ [make_choice chat (cleaned config regs predInput s)]"]
  obtain cache' where
    "sample_loop w chat config predInput predFunc n (i + 1) cache1 (Suc k)
       (result @ [make_choice chat (cleaned config regs predInput s)]) =
     (Inr ((result @ [make_choice chat (cleaned config regs predInput s)]) @
           map (\<lambda>s. make_choice chat (cleaned config regs predInput s)) ss),
      cache', Suc k + length ss)" and "cache_ok w cache'"
    by blast
  with lt first pp r show ?case
    by (subst sample_loop.simps) simp
qed

lemma sample_loop_err:
  assumes ok: "cache_ok w cache"
    and regs: "map (regexp_MustCompile w) (Cutstrings config) = map Some regs"
    and len: "int (length samples) < n - i"
    and succ: "\<forall>j<length samples. predFunc (k + j) = Inr (samples ! j)"
    and fail: "predFunc (k + length samples) = Inl err"
  shows "\<exists>cache'. sample_loop w chat config predInput predFunc n i cache k result =
           (Inl err, cache', k + length samples + 1)"
  using ok len succ fail
proof (induction samples arbitrary: i cache k result)
  case Nil
  then have "i < n" and "predFunc k = Inl err" by simp_all
  then show ?case
    by (subst sample_loop.simps) simp
next
  case (Cons s ss)
  from Cons.prems(2) have lt: "i < n" and len': "int (length ss) < n - (i + 1)"
    by auto
  from Cons.prems(3) have first: "predFunc k = Inr s"
    and rest: "\<forall>j<length ss. predFunc (Suc k + j) = Inr (ss ! j)"
    by (auto dest: spec [of _ 0])
  from Cons.prems(4) have fail': "predFunc (Suc k + length ss) = Inl err"
    by simp
  obtain r cache1 where pp: "postprocess w config predInput cache s = (r, cache1)"
    by (cases "postprocess w config predInput cache s")
  with postprocess_ok [OF Cons.prems(1) regs, of predInput s]
  have r: "r = Inr (cleaned config regs predInput s)" and ok1: "cache_ok w cache1"
    by simp_all
  from Cons.IH [OF ok1 len' rest fail',
      of "result @ [make_choice chat (cleaned config regs predInput s)]"]
  obtain cache' where
    "sample_loop w chat config predInput predFunc n (i + 1) cache1 (Suc k)
       (result @ [make_choice chat (cleaned config regs predInput s)]) =
     (Inl err, cache', Suc k + length ss + 1)"
    by blast
  with lt first pp r show ?case
    by (subst sample_loop.simps) simp
qed


text \<open>
  Claim C3, as amended. Let the cut-string patterns of the configuration compile. For
  a sample count \<open>N > 0\<close> whose first \<open>N\<close> invocations of the callable succeed, the
  callable is invoked exactly \<open>N\<close> times and the response holds the \<open>N\<close> choices made
  from the post-processed predictions, in invocation order. For \<open>N = 0\<close> the callable
  is invoked once and the response holds one choice. When an invocation fails after
  some have succeeded, no further invocation is made and the handler returns that
  error and no response.
\<close>

theorem C3_sampling:
  "cache_ok w cache \<and> map (regexp_MustCompile w) (Cutstrings config) = map Some regs \<longrightarrow>
     (let h = respond w cm chat config predInput predFunc (sample_count input) input cache;
          choice = (\<lambda>s. make_choice chat (cleaned config regs predInput s))
      in (0 < N input \<and> length samples = nat (N input) \<and>
          (\<forall>j<length samples. predFunc j = Inr (samples ! j)) \<longrightarrow>
            invocations h = nat (N input) \<and>
            outcome h = Inr \<lparr>Created = 0, Object = [], ID = [], Response_Model = Model input,
                             Choices = map choice samples\<rparr>) \<and>
         (N input = 0 \<and> predFunc 0 = Inr s \<longrightarrow>
            invocations h = 1 \<and>
            outcome h = Inr \<lparr>Created = 0, Object = [], ID = [], Response_Model = Model input,
                             Choices = [choice s]\<rparr>) \<and>
         (int (length samples) < sample_count input \<and>
          (\<forall>j<length samples. predFunc j = Inr (samples ! j)) \<and>
          predFunc (length samples) = Inl err \<longrightarrow>
            invocations h = length samples + 1 \<and> outcome h = Inl err))"
proof (intro impI, elim conjE)
  assume ok: "cache_ok w cache"
    and regs: "map (regexp_MustCompile w) (Cutstrings config) = map Some regs"
  let ?h = "respond w cm chat config predInput predFunc (sample_count input) input cache"
  let ?choice = "\<lambda>s. make_choice chat (cleaned config regs predInput s)"
  have many: "invocations ?h = nat (N input) \<and>
        outcome ?h = Inr \<lparr>Created = 0, Object = [], ID = [], Response_Model = Model input,
                         Choices = map ?choice samples\<rparr>"
    if "0 < N input" "length samples = nat (N input)"
      "\<forall>j<length samples. predFunc j = Inr (samples ! j)"
  proof -
    from that have "length samples = nat (sample_count input - 0)"
      and "\<forall>j<length samples. predFunc (0 + j) = Inr (samples ! j)"
      by (simp_all add: sample_count_def)
    from sample_loop_ok [OF ok regs this, of chat predInput "[]"] that(2) show ?thesis
      by (auto simp: respond_def)
  qed
  have one: "invocations ?h = 1 \<and>
        outcome ?h = Inr \<lparr>Created = 0, Object = [], ID = [], Response_Model = Model input,
                         Choices = [?choice s]\<rparr>"
    if "N input = 0" "predFunc 0 = Inr s"
  proof -
    from that have "length [s] = nat (sample_count input - 0)"
      and "\<forall>j<length [s]. predFunc (0 + j) = Inr ([s] ! j)"
      by (simp_all add: sample_count_def)
    from sample_loop_ok [OF ok regs this, of chat predInput "[]"] show ?thesis
      by (auto simp: respond_def)
  qed
  have abort: "invocations ?h = length samples + 1 \<and> outcome ?h = Inl err"
    if "int (length samples) < sample_count input"
      "\<forall>j<length samples. predFunc j = Inr (samples ! j)"
      "predFunc (length samples) = Inl err"
  proof -
    from that have "int (length samples) < sample_count input - 0"
      and "\<forall>j<length samples. predFunc (0 + j) = Inr (samples ! j)"
      and "predFunc (0 + length samples) = Inl err"
      by simp_all
    from sample_loop_err [OF ok regs this, of chat predInput "[]"] show ?thesis
      by (auto simp: respond_def)
  qed
  from many one abort
  show "let h = ?h; choice = ?choice
      in (0 < N input \<and> length samples = nat (N input) \<and>
          (\<forall>j<length samples. predFunc j = Inr (samples ! j)) \<longrightarrow>
            invocations h = nat (N input) \<and>
            outcome h = Inr \<lparr>Created = 0, Object = [], ID = [], Response_Model = Model input,
                             Choices = map choice samples\<rparr>) \<and>
         (N input = 0 \<and> predFunc 0 = Inr s \<longrightarrow>
            invocations h = 1 \<and>
            outcome h = Inr \<lparr>Created = 0, Object = [], ID = [], Response_Model = Model input,
                             Choices = [choice s]\<rparr>) \<and>
         (int (length samples) < sample_count input \<and>
          (\<forall>j<length samples. predFunc j = Inr (samples ! j)) \<and>
          predFunc (length samples) = Inl err \<longrightarrow>
            invocations h = length samples + 1 \<and> outcome h = Inl err)"
    by (simp add: Let_def)
qed


theorem C3_sampling_witness:
  "(let h = respond ex_world ex_store False ex_echo ''Hello'' ex_predFunc
              (sample_count ex_overrides) ex_overrides Map.empty
    in invocations h = 3 \<and>
       outcome h = Inr \<lparr>Created = 0, Object = [], ID = [], Response_Model = ''gpt'',
         Choices = [\<lparr>Index = 0, FinishReason = [], Choice_Message = None, Text = '' one''\<rparr>,
                    \<lparr>Index = 0, FinishReason = [], Choice_Message = None, Text = ''two''\<rparr>,
                    \<lparr>Index = 0, FinishReason = [], Choice_Message = None, Text = ''three''\<rparr>]\<rparr>) \<and>
   (let h = respond ex_world ex_store False ex_echo ''Hello'' ex_predFunc
              (sample_count zero_OpenAIRequest) zero_OpenAIRequest Map.empty
    in invocations h = 1 \<and>
       outcome h = Inr \<lparr>Created = 0, Object = [], ID = [], Response_Model = [],
         Choices = [\<lparr>Index = 0, FinishReason = [], Choice_Message = None, Text = '' one''\<rparr>]\<rparr>) \<and>
   (let h = respond ex_world ex_store False ex_echo ''Hello'' ex_predFunc
              (sample_count ex_five) ex_five Map.empty
    in invocations h = 4 \<and> outcome h = Inl (External ''engine failed''))"
proof -
  have cfg: "Echo (Request ex_echo)" "Cutstrings ex_echo = [''Hello'']" "TrimSpace ex_echo = []"
    by (simp_all add: ex_echo_def ex_simps)
  have re: "map (regexp_MustCompile ex_world) (Cutstrings ex_echo) =
      map Some [remove_literal ''Hello'' 0]"
    by (simp add: cfg ex_world_def)
  have inp: "N ex_overrides = 3" "Model ex_overrides = ''gpt''" "N zero_OpenAIRequest = 0"
    "Model zero_OpenAIRequest = []" "sample_count ex_five = 5"
    by (simp_all add: ex_overrides_def zero_OpenAIRequest_def ex_five_def sample_count_def)
  have pf: "ex_predFunc 0 = Inr ''Hello one''" "ex_predFunc (Suc 0) = Inr ''two''"
    "ex_predFunc 2 = Inr ''three''" "ex_predFunc 3 = Inl (External ''engine failed'')"
    by (simp_all add: ex_predFunc_def)
  have all: "\<forall>j<length [''Hello one'', ''two'', ''three''].
      ex_predFunc j = Inr ([''Hello one'', ''two'', ''three''] ! j)"
    by (simp add: ex_predFunc_def less_Suc_eq numeral_3_eq_3)
  have cl: "cleaned ex_echo [remove_literal ''Hello'' 0] ''Hello'' ''Hello one'' = '' one''"
    "cleaned ex_echo [remove_literal ''Hello'' 0] ''Hello'' ''two'' = ''two''"
    "cleaned ex_echo [remove_literal ''Hello'' 0] ''Hello'' ''three'' = ''three''"
    by (simp_all add: cleaned_def cfg)
  from C3_sampling [where w = ex_world and cache = Map.empty and config = ex_echo
      and regs = "[remove_literal ''Hello'' 0]" and cm = ex_store and chat = False
      and predInput = "''Hello''" and predFunc = ex_predFunc and input = ex_overrides
      and samples = "[''Hello one'', ''two'', ''three'']" and s = "[]"
      and err = NoModelSpecified] cache_ok_empty [of ex_world] re inp all cl
  have 1: "let h = respond ex_world ex_store False ex_echo ''Hello'' ex_predFunc
              (sample_count ex_overrides) ex_overrides Map.empty
    in invocations h = 3 \<and>
       outcome h = Inr \<lparr>Created = 0, Object = [], ID = [], Response_Model = ''gpt'',
         Choices = [\<lparr>Index = 0, FinishReason = [], Choice_Message = None, Text = '' one''\<rparr>,
                    \<lparr>Index = 0, FinishReason = [], Choice_Message = None, Text = ''two''\<rparr>,
                    \<lparr>Index = 0, FinishReason = [], Choice_Message = None, Text = ''three''\<rparr>]\<rparr>"
    by (simp add: Let_def make_choice_def)
  from C3_sampling [where w = ex_world and cache = Map.empty and config = ex_echo
      and regs = "[remove_literal ''Hello'' 0]" and cm = ex_store and chat = False
      and predInput = "''Hello''" and predFunc = ex_predFunc and input = zero_OpenAIRequest
      and samples = "[]" and s = "''Hello one''"
      and err = NoModelSpecified] cache_ok_empty [of ex_world] re inp pf cl
  have 2: "let h = respond ex_world ex_store False ex_echo ''Hello'' ex_predFunc
              (sample_count zero_OpenAIRequest) zero_OpenAIRequest Map.empty
    in invocations h = 1 \<and>
       outcome h = Inr \<lparr>Created = 0, Object = [], ID = [], Response_Model = [],
         Choices = [\<lparr>Index = 0, FinishReason = [], Choice_Message = None, Text = '' one''\<rparr>]\<rparr>"
    by (simp add: Let_def make_choice_def)
  from C3_sampling [where w = ex_world and cache = Map.empty and config = ex_echo
      and regs = "[remove_literal ''Hello'' 0]" and cm = ex_store and chat = False
      and predInput = "''Hello''" and predFunc = ex_predFunc and input = ex_five
      and samples = "[''Hello one'', ''two'', ''three'']" and s = "[]"
      and err = "External ''engine failed''"] cache_ok_empty [of ex_world] re inp all pf
  have 3: "let h = respond ex_world ex_store False ex_echo ''Hello'' ex_predFunc
              (sample_count ex_five) ex_five Map.empty
    in invocations h = 4 \<and> outcome h = Inl (External ''engine failed'')"
    by (simp add: Let_def ex_five_def eval_nat_numeral)
  from 1 2 3 show ?thesis by blast
qed

text \<open>
  Claim C3 as stated fails for a configuration with a cut-string pattern that does not
  compile: for a request of three samples the callable is invoked once, and the
  handler panics while it post-processes the first prediction.
\<close>

theorem C3_counterexample:
  "N ex_overrides = 3 \<and>
   invocations (openAIEndpoint bare_world ex_inference bad_store False False ex_loader 0 0 False
      Map.empty [] (Inr ex_overrides)) = 1 \<and>
   outcome (openAIEndpoint bare_world ex_inference bad_store False False ex_loader 0 0 False
      Map.empty [] (Inr ex_overrides)) = Inl (Panic ''regexp: Compile'')"
proof -
  define config where "config = resolved_config bad_store ''gpt'' ex_overrides 0 0 False"
  have cfg: "Cutstrings config = [''('']" "Model (Request config) = ''ggml.bin''"
    "TemplateConfig config = \<lparr>Completion = [], Chat = []\<rparr>"
    by (simp_all add: config_def resolved_simps bad_store_def ex_badcut_def ex_simps)
  have res: "config_resolver bare_world bad_store ex_loader 0 0 False [] ex_overrides =
      (Inr config, bad_store)"
    by (simp add: config_resolver_def ex_selected load_companion_def Let_def ex_paths config_def)
  have tmpl: "apply_template ex_loader False config x = x" for x
    by (simp add: apply_template_def templateFile_of_def cfg ex_loader_def)
  have re: "regexp_MustCompile bare_world ''('' = None"
    by (simp add: bare_world_def ex_world_def)
  have n: "N ex_overrides = 3" "sample_count ex_overrides = 3"
    by (simp_all add: ex_overrides_def sample_count_def)
  have "sample_loop bare_world False config x (\<lambda>k. Inr ''Hello world'') 3 0 Map.empty 0 [] =
      (Inl (Panic ''regexp: Compile''), Map.empty, 1)" for x
    by (subst sample_loop.simps) (simp add: postprocess_def cfg re)
  then have "openAIEndpoint bare_world ex_inference bad_store False False ex_loader 0 0 False
      Map.empty [] (Inr ex_overrides) =
    \<lparr>outcome = Inl (Panic ''regexp: Compile''), store_after = bad_store,
     cutstrings_after = Map.empty, invocations = 1\<rparr>"
    by (simp add: openAIEndpoint_def res tmpl infer_and_respond_def ex_inference_def n
        respond_def)
  with n show ?thesis by simp
qed


text \<open>The handler keeps the invariant of the pattern cache, whatever it returns.\<close>

lemma sample_loop_cache_ok:
  "cache_ok w cache \<Longrightarrow>
   cache_ok w (fst (snd (sample_loop w chat config predInput predFunc n i cache k result)))"
proof (induction w chat config predInput predFunc n i cache k result rule: sample_loop.induct)
  case (1 w chat config predInput predFunc n i cache k result)
  show ?case
  proof (cases "i < n")
    case False
    with "1.prems" show ?thesis
      by (subst sample_loop.simps) simp
  next
    case True
    show ?thesis
    proof (cases "predFunc k")
      case (Inl err)
      with True "1.prems" show ?thesis
        by (subst sample_loop.simps) simp
    next
      case (Inr prediction)
      obtain r cache1 where pp: "postprocess w config predInput cache prediction = (r, cache1)"
        by (cases "postprocess w config predInput cache prediction")
      with postprocess_cache_ok [OF "1.prems", of config predInput prediction]
      have ok1: "cache_ok w cache1" by simp
      show ?thesis
      proof (cases r)
        case (Inl err)
        with True \<open>predFunc k = Inr prediction\<close> pp ok1 show ?thesis
          by (subst sample_loop.simps) simp
      next
        case (Inr t)
        from "1.IH" [OF True \<open>predFunc k = Inr prediction\<close> pp [symmetric] Inr ok1]
        have "cache_ok w (fst (snd (sample_loop w chat config predInput predFunc n (i + 1)
            cache1 (Suc k) (result @ [make_choice chat t]))))" .
        with True \<open>predFunc k = Inr prediction\<close> pp Inr show ?thesis
          by (subst sample_loop.simps) simp
      qed
    qed
  qed
qed

lemma cutstrings_after_respond:
  "cutstrings_after (respond w cm chat config predInput predFunc n input cache) =
     fst (snd (sample_loop w chat config predInput predFunc n 0 cache 0 []))"
proof -
  obtain r cache' k where "sample_loop w chat config predInput predFunc n 0 cache 0 [] = (r, cache', k)"
    by (cases "sample_loop w chat config predInput predFunc n 0 cache 0 []")
  then show ?thesis
    by (cases r) (simp_all add: respond_def)
qed

lemma cache_ok_openAIEndpoint:
  assumes "cache_ok w cache"
  shows "cache_ok w (cutstrings_after (openAIEndpoint w inference cm chat debug loader threads ctx
    half cache authorization body))"
proof (cases body)
  case (Inl err)
  with assms show ?thesis by (simp add: openAIEndpoint_def)
next
  case (Inr input)
  obtain r cm' where res: "config_resolver w cm loader threads ctx half authorization input = (r, cm')"
    by (cases "config_resolver w cm loader threads ctx half authorization input")
  show ?thesis
  proof (cases r)
    case (Inl err)
    with Inr res assms show ?thesis by (simp add: openAIEndpoint_def)
  next
    case (Inr config)
    let ?p = "apply_template loader chat config (build_predInput chat config input)"
    show ?thesis
    proof (cases "inference ?p loader config")
      case (Inl err)
      with \<open>body = Inr input\<close> res \<open>r = Inr config\<close> assms show ?thesis
        by (simp add: openAIEndpoint_def infer_and_respond_def)
    next
      case (Inr predFunc)
      with \<open>body = Inr input\<close> res \<open>r = Inr config\<close>
        sample_loop_cache_ok [OF assms, of chat config ?p predFunc "sample_count input" 0 0 "[]"]
      show ?thesis
        by (simp add: openAIEndpoint_def infer_and_respond_def cutstrings_after_respond)
    qed
  qed
qed

end
